theory Spec2Isabelle
  imports Main
begin

section \<open>Python strings, lists and exceptions\<close>

text \<open>
  A Python \<open>str\<close> is a \<open>string\<close> (ASCII text). The exceptions that the statements of
  \<open>actions.py\<close> can raise are values of \<open>exn\<close>; a function that can raise returns
  \<open>exn + 'a\<close> with \<open>Inl\<close> for the exception. \<open>Exception\<close> is the bare
  \<open>raise Exception\<close> of \<open>process_alarm_tags\<close>, \<open>ClientError\<close> is whatever a call of the
  AWS client raises.
\<close>

datatype exn = IndexError | KeyError | ValueError | TypeError | AttributeError
  | Exception | ClientError string

text \<open>\<open>s.startswith(p)\<close>.\<close>

definition startswith :: "string \<Rightarrow> string \<Rightarrow> bool" where
  "startswith s p = (take (length p) s = p)"

text \<open>\<open>p in s\<close> for two strings: \<open>p\<close> occurs in \<open>s\<close> as a contiguous substring.\<close>

fun str_in :: "string \<Rightarrow> string \<Rightarrow> bool" where
  "str_in p [] = (p = [])"
| "str_in p (c # cs) = (startswith (c # cs) p \<or> str_in p cs)"

text \<open>\<open>s.lower()\<close> on ASCII text: the letters A to Z move to a to z.\<close>

definition lower_char :: "char \<Rightarrow> char" where
  "lower_char c =
     (let n = (of_char c :: nat) in if 65 \<le> n \<and> n \<le> 90 then char_of (n + 32) else c)"

definition lower :: "string \<Rightarrow> string" where
  "lower s = map lower_char s"

text \<open>
  \<open>s.split('-')\<close>: the pieces between the separators, in order; the result is never
  empty, and an empty string gives one empty piece.
\<close>

fun split_on :: "char \<Rightarrow> string \<Rightarrow> string list" where
  "split_on sep [] = [[]]"
| "split_on sep (c # cs) =
     (if c = sep then [] # split_on sep cs
      else (case split_on sep cs of
              [] \<Rightarrow> [[c]]
            | w # ws \<Rightarrow> (c # w) # ws))"

definition split_dash :: "string \<Rightarrow> string list" where
  "split_dash s = split_on (CHR ''-'') s"

text \<open>\<open>xs[i]\<close> for an index \<open>i \<ge> 0\<close>: IndexError out of range.\<close>

definition index :: "'a list \<Rightarrow> nat \<Rightarrow> exn + 'a" where
  "index xs i = (if i < length xs then Inr (xs ! i) else Inl IndexError)"

text \<open>\<open>xs[::2]\<close>: every other element, starting with the first.\<close>

fun every_other :: "'a list \<Rightarrow> 'a list" where
  "every_other [] = []"
| "every_other [x] = [x]"
| "every_other (x # y # xs) = x # every_other xs"

text \<open>\<open>d[k]\<close> for a dict held as an association list: KeyError when the key is absent.\<close>

definition subscript :: "('k \<times> 'v) list \<Rightarrow> 'k \<Rightarrow> exn + 'v" where
  "subscript d k = (case map_of d k of None \<Rightarrow> Inl KeyError | Some v \<Rightarrow> Inr v)"

text \<open>
  \<open>d[k] = v\<close> on such a dict: an existing key keeps its place, a new one goes last.
\<close>

fun assign :: "'k \<Rightarrow> 'v \<Rightarrow> ('k \<times> 'v) list \<Rightarrow> ('k \<times> 'v) list" where
  "assign k v [] = [(k, v)]"
| "assign k v (p # ps) = (if fst p = k then (k, v) # ps else p # assign k v ps)"

section \<open>The data of the module\<close>

text \<open>
  A tag is the dict \<open>{'Key': ..., 'Value': ...}\<close>; a dimension is the dict
  \<open>{'Name': ..., 'Value': ...}\<close> (fields \<open>DimName\<close> and \<open>DimValue\<close>).
\<close>

record tag =
  Key :: string
  Value :: string

record dimension =
  DimName :: string
  DimValue :: string

text \<open>
  \<open>default_alarms\<close> maps a namespace to a list of tags (\<open>'AWS/EC2'\<close>, \<open>'AWS/Lambda'\<close>) or,
  for the agent namespace, to a dict from the platform (a string or \<open>None\<close>) to a list
  of tags. Both dicts are association lists in insertion order.
\<close>

datatype bucket = Tag_list "tag list" | By_platform "(string option \<times> tag list) list"

type_synonym default_alarms = "(string \<times> bucket) list"

text \<open>
  The \<open>Period\<close> entry of the alarm passed to \<open>put_metric_alarm\<close>: the number of seconds
  when \<open>convert_to_seconds\<close> returned, the string as it came otherwise.
\<close>

datatype period = Seconds int | Unconverted string

text \<open>
  The keyword arguments of \<open>put_metric_alarm\<close>. \<open>'f\<close> is the type of Python's floats;
  \<open>AlarmActions\<close> is \<open>None\<close> when the key is not set.
\<close>

record 'f alarm =
  AlarmName :: string
  AlarmDescription :: string
  MetricName :: string
  Namespace :: string
  Dimensions :: "dimension list"
  Period :: period
  EvaluationPeriods :: nat
  Threshold :: 'f
  ComparisonOperator :: string
  Statistic :: string
  AlarmActions :: "string list option"

text \<open>
  An image of the \<open>describe_images\<close> response: the three keys the module reads, each
  present or not.
\<close>

record image =
  PlatformDetails :: "string option"
  Description :: "string option"
  Name :: "string option"

text \<open>
  The instance record of \<open>describe_instances\<close>: its \<open>'Tags'\<close>, its \<open>'ImageId'\<close> (both
  keys are taken to be present) and its other string-valued attributes (what
  \<open>instance_info.get\<close> finds for a dimension name).
\<close>

record instance_info =
  Tags :: "tag list"
  ImageId :: string
  attributes :: "(string \<times> string) list"

section \<open>The outside of the module: built-ins, the AWS client, the logger\<close>

datatype 'f api_call =
    Describe_images string
  | Put_metric_alarm "'f alarm"
  | Describe_alarms string
  | Delete_alarms "string list"

text \<open>
  What the module does not define is a parameter: the built-ins \<open>int\<close> and \<open>float\<close> on a
  string (\<open>None\<close> is their ValueError), and the answer of each call of the boto3 client,
  which may depend on every call issued before it (the history is the first argument).
  An answer \<open>Inl e\<close> or \<open>Some e\<close> is the exception the call raises. \<open>describe_images\<close>
  answers with the list under \<open>'Images'\<close> (\<open>None\<close>: no such key), \<open>describe_alarms\<close> with
  the \<open>'AlarmName'\<close> of each entry under \<open>'MetricAlarms'\<close> (\<open>None\<close>: no such key).
  Building the client (\<open>boto3_client\<close>) happens inside the same \<open>try\<close> as the call
  and counts as part of it.
\<close>

record 'f env =
  int_builtin :: "string \<Rightarrow> int option"
  float_builtin :: "string \<Rightarrow> 'f option"
  ec2_describe_images :: "'f api_call list \<Rightarrow> string \<Rightarrow> exn + image list option"
  cw_put_metric_alarm :: "'f api_call list \<Rightarrow> 'f alarm \<Rightarrow> exn option"
  cw_describe_alarms :: "'f api_call list \<Rightarrow> string \<Rightarrow> exn + string list option"
  cw_delete_alarms :: "'f api_call list \<Rightarrow> string list \<Rightarrow> exn option"

datatype level = DEBUG | INFO | WARNING | ERROR

text \<open>
  One constructor for each message of the module, with the values it formats.
\<close>

datatype log_msg =
    Activation_tag_not_found string
  | Processing_function_alarms default_alarms
  | ImageId_is string
  | Platform_is "string option"
  | Dimension_has_no_value string string
  | Cwagent_dimensions "dimension list"
  | Unable_to_determine_dimensions tag
  | Platform_details_of_image string
  | Failure_describing_image string exn
  | Error_converting_threshold string
  | Error_converting_Period string string exn
  | Created_alarm string
  | Error_creating_alarm string exn
  | Calling_describe_alarms string
  | Response_from_describe_alarms "string list option"
  | Deleting "string list" string
  | Error_deleting_alarms string exn

text \<open>
  The state the module acts on: the calls of the logger and the calls issued to the
  AWS client, both in order.
\<close>

record 'f state =
  log :: "(level \<times> log_msg) list"
  calls :: "'f api_call list"

definition logger :: "level \<Rightarrow> log_msg \<Rightarrow> 'f state \<Rightarrow> 'f state" where
  "logger l m st = st\<lparr>log := log st @ [(l, m)]\<rparr>"

definition issue :: "'f api_call \<Rightarrow> 'f state \<Rightarrow> 'f state" where
  "issue c st = st\<lparr>calls := calls st @ [c]\<rparr>"

section \<open>\<open>convert_to_seconds\<close> and \<open>create_alarm\<close>\<close>

definition seconds_per_unit :: "(char \<times> int) list" where
  "seconds_per_unit =
     [(CHR ''s'', 1), (CHR ''m'', 60), (CHR ''h'', 3600), (CHR ''d'', 86400),
      (CHR ''w'', 604800)]"

text \<open>
  \<open>int(s[:-1]) * seconds_per_unit[s[-1]]\<close>, left operand first; any exception is logged
  and raised again.
\<close>

definition convert_to_seconds :: "'f env \<Rightarrow> string \<Rightarrow> 'f state \<Rightarrow> (exn + int) \<times> 'f state" where
  "convert_to_seconds env s st =
     (case (case int_builtin env (butlast s) of
              None \<Rightarrow> Inl ValueError
            | Some n \<Rightarrow>
                (case index s (length s - 1) of
                   Inl e \<Rightarrow> Inl e
                 | Inr u \<Rightarrow>
                     (case subscript seconds_per_unit u of
                        Inl e \<Rightarrow> Inl e
                      | Inr k \<Rightarrow> Inr (n * k)))) of
        Inl e \<Rightarrow> (Inl e, logger ERROR (Error_converting_threshold s) st)
      | Inr secs \<Rightarrow> (Inr secs, st))"

text \<open>
  \<open>create_alarm\<close>. The first \<open>try\<close> logs a failure of \<open>convert_to_seconds\<close> and goes on
  with \<open>Period\<close> unchanged; \<open>float(Threshold)\<close> stands outside both \<open>try\<close> blocks; the
  second \<open>try\<close> logs whatever \<open>put_metric_alarm\<close> raises. The function returns \<open>None\<close>.
\<close>

definition create_alarm ::
  "'f env \<Rightarrow> string \<Rightarrow> string \<Rightarrow> string \<Rightarrow> string \<Rightarrow> string \<Rightarrow> string \<Rightarrow> string \<Rightarrow>
   dimension list \<Rightarrow> string option \<Rightarrow> 'f state \<Rightarrow> (exn + unit) \<times> 'f state" where
  "create_alarm env alarm_name metric_name comparison_operator period_str threshold_str
     statistic namespace dimensions sns_topic_arn st =
     (let (r, st1) = convert_to_seconds env period_str st;
          (p, st2) =
            (case r of
               Inr secs \<Rightarrow> (Seconds secs, st1)
             | Inl e \<Rightarrow>
                 (Unconverted period_str,
                  logger ERROR (Error_converting_Period period_str alarm_name e) st1))
      in case float_builtin env threshold_str of
           None \<Rightarrow> (Inl ValueError, st2)
         | Some t \<Rightarrow>
             (let a = \<lparr>AlarmName = alarm_name,
                       AlarmDescription = ''Alarm created by lambda function CloudWatchAutoAlarms'',
                       MetricName = metric_name,
                       Namespace = namespace,
                       Dimensions = dimensions,
                       Period = p,
                       EvaluationPeriods = 1,
                       Threshold = t,
                       ComparisonOperator = comparison_operator,
                       Statistic = statistic,
                       AlarmActions = (case sns_topic_arn of None \<Rightarrow> None | Some arn \<Rightarrow> Some [arn])\<rparr>;
                  st3 = issue (Put_metric_alarm a) st2
              in case cw_put_metric_alarm env (calls st2) a of
                   None \<Rightarrow> (Inr (), logger INFO (Created_alarm alarm_name) st3)
                 | Some e \<Rightarrow> (Inr (), logger ERROR (Error_creating_alarm alarm_name e) st3)))"

section \<open>\<open>determine_platform\<close>\<close>

text \<open>
  The \<open>if\<close>/\<open>elif\<close> chain on \<open>platform_details\<close>, in the order of the source. In the
  \<open>'Linux/UNIX'\<close> branch \<open>'Description'\<close> is read first and \<open>'Name'\<close> only when the
  description has no \<open>ubuntu\<close>; a missing key is a KeyError.
\<close>

definition platform_of :: "string \<Rightarrow> image \<Rightarrow> exn + string option" where
  "platform_of platform_details img =
     (if str_in ''Windows'' platform_details \<or> str_in ''SQL Server'' platform_details
        then Inr (Some ''Windows'')
      else if str_in ''Red Hat'' platform_details then Inr (Some ''Red Hat'')
      else if str_in ''SUSE'' platform_details then Inr (Some ''SUSE'')
      else if str_in ''Linux/UNIX'' platform_details then
        (case Description img of
           None \<Rightarrow> Inl KeyError
         | Some d \<Rightarrow>
             if str_in ''ubuntu'' (lower d) then Inr (Some ''Ubuntu'')
             else (case Name img of
                     None \<Rightarrow> Inl KeyError
                   | Some n \<Rightarrow>
                       if str_in ''ubuntu'' (lower n) then Inr (Some ''Ubuntu'')
                       else Inr (Some ''Amazon Linux'')))
      else Inr None)"

text \<open>
  \<open>determine_platform\<close>: the whole body is inside the \<open>try\<close>, so every exception is
  logged and raised again.
\<close>

definition determine_platform ::
  "'f env \<Rightarrow> string \<Rightarrow> 'f state \<Rightarrow> (exn + string option) \<times> 'f state" where
  "determine_platform env imageid st =
     (let st1 = issue (Describe_images imageid) st
      in case ec2_describe_images env (calls st) imageid of
           Inl e \<Rightarrow> (Inl e, logger ERROR (Failure_describing_image imageid e) st1)
         | Inr None \<Rightarrow> (Inr None, st1)
         | Inr (Some []) \<Rightarrow> (Inr None, st1)
         | Inr (Some (img # _)) \<Rightarrow>
             (case PlatformDetails img of
                None \<Rightarrow>
                  (Inl KeyError, logger ERROR (Failure_describing_image imageid KeyError) st1)
              | Some platform_details \<Rightarrow>
                  (let st2 = logger DEBUG (Platform_details_of_image platform_details) st1
                   in case platform_of platform_details img of
                        Inl e \<Rightarrow> (Inl e, logger ERROR (Failure_describing_image imageid e) st2)
                      | Inr platform \<Rightarrow> (Inr platform, st2))))"

section \<open>Loops and the fixed-position fields of a tag key\<close>

text \<open>
  A \<open>for\<close> loop whose body acts on a state and may raise: the first exception ends the
  loop and leaves the state as it is at that point.
\<close>

fun for_each :: "('a \<Rightarrow> 's \<Rightarrow> (exn + unit) \<times> 's) \<Rightarrow> 'a list \<Rightarrow> 's \<Rightarrow> (exn + unit) \<times> 's" where
  "for_each body [] s = (Inr (), s)"
| "for_each body (x # xs) s =
     (case body x s of
        (Inl e, s') \<Rightarrow> (Inl e, s')
      | (Inr _, s') \<Rightarrow> for_each body xs s')"

text \<open>
  \<open>for tag in default_alarms[...]\<close> over a bucket. Over a dict the loop runs over its
  keys, and \<open>tag['Key']\<close>, the first thing both bodies evaluate, is a TypeError on a
  string or \<open>None\<close>.
\<close>

fun for_each_tag :: "(tag \<Rightarrow> 's \<Rightarrow> (exn + unit) \<times> 's) \<Rightarrow> bucket \<Rightarrow> 's \<Rightarrow> (exn + unit) \<times> 's" where
  "for_each_tag body (Tag_list ts) s = for_each body ts s"
| "for_each_tag body (By_platform ps) s = (if ps = [] then (Inr (), s) else (Inl TypeError, s))"

text \<open>
  The reads \<open>alarm_properties[1]\<close> to \<open>alarm_properties[5]\<close> of a split key, in the order
  Namespace, MetricName, ComparisonOperator, Period, Statistic. Nothing happens between
  the five reads, so they raise IndexError exactly when the key has fewer than six
  pieces.
\<close>

definition fixed_properties :: "string \<Rightarrow> exn + (string \<times> string \<times> string \<times> string \<times> string)" where
  "fixed_properties key =
     (let alarm_properties = split_dash key
      in if 5 < length alarm_properties
         then Inr (alarm_properties ! 1, alarm_properties ! 2, alarm_properties ! 3,
                   alarm_properties ! 4, alarm_properties ! 5)
         else Inl IndexError)"

text \<open>
  \<open>default_alarms[namespace].append(t)\<close>: the list under the key grows in place, which
  the caller of the module sees. Appending to a dict is an AttributeError.
\<close>

definition append_tag :: "string \<Rightarrow> tag \<Rightarrow> default_alarms \<Rightarrow> exn + default_alarms" where
  "append_tag namespace t default_alarms =
     (case subscript default_alarms namespace of
        Inl e \<Rightarrow> Inl e
      | Inr (By_platform _) \<Rightarrow> Inl AttributeError
      | Inr (Tag_list ts) \<Rightarrow> Inr (assign namespace (Tag_list (ts @ [t])) default_alarms))"

text \<open>
  \<open>default_alarms[namespace][platform].append(t)\<close>. Subscripting a list with a string or
  \<open>None\<close> is a TypeError.
\<close>

definition append_platform_tag ::
  "string \<Rightarrow> string option \<Rightarrow> tag \<Rightarrow> default_alarms \<Rightarrow> exn + default_alarms" where
  "append_platform_tag namespace platform t default_alarms =
     (case subscript default_alarms namespace of
        Inl e \<Rightarrow> Inl e
      | Inr (Tag_list _) \<Rightarrow> Inl TypeError
      | Inr (By_platform ps) \<Rightarrow>
          (case subscript ps platform of
             Inl e \<Rightarrow> Inl e
           | Inr ts \<Rightarrow>
               Inr (assign namespace (By_platform (assign platform (ts @ [t]) ps)) default_alarms)))"

section \<open>\<open>process_lambda_alarms\<close>\<close>

text \<open>
  The first loop: every key of \<open>tags\<close> that starts with \<open>AutoAlarm\<close> is appended, with
  its value, to \<open>default_alarms['AWS/Lambda']\<close>.
\<close>

fun collect_function_tags ::
  "(string \<times> string) list \<Rightarrow> string list \<Rightarrow> default_alarms \<Rightarrow> (exn + unit) \<times> default_alarms" where
  "collect_function_tags tags [] default_alarms = (Inr (), default_alarms)"
| "collect_function_tags tags (tag_key # tag_keys) default_alarms =
     (if startswith tag_key ''AutoAlarm'' then
        (case subscript default_alarms ''AWS/Lambda'' of
           Inl e \<Rightarrow> (Inl e, default_alarms)
         | Inr (By_platform _) \<Rightarrow> (Inl AttributeError, default_alarms)
         | Inr (Tag_list _) \<Rightarrow>
             (case subscript tags tag_key of
                Inl e \<Rightarrow> (Inl e, default_alarms)
              | Inr v \<Rightarrow>
                  (case append_tag ''AWS/Lambda'' \<lparr>Key = tag_key, Value = v\<rparr> default_alarms of
                     Inl e \<Rightarrow> (Inl e, default_alarms)
                   | Inr default_alarms' \<Rightarrow>
                       collect_function_tags tags tag_keys default_alarms')))
      else collect_function_tags tags tag_keys default_alarms)"

text \<open>The body of the second loop: the alarm of one tag.\<close>

definition lambda_alarm ::
  "'f env \<Rightarrow> string \<Rightarrow> dimension list \<Rightarrow> string option \<Rightarrow> tag \<Rightarrow> 'f state \<Rightarrow>
   (exn + unit) \<times> 'f state" where
  "lambda_alarm env function_name dimensions sns_topic_arn t st =
     (case fixed_properties (Key t) of
        Inl e \<Rightarrow> (Inl e, st)
      | Inr (namespace, metric_name, comparison_operator, period_str, statistic) \<Rightarrow>
          create_alarm env
            (''AutoAlarm-'' @ function_name @ ''-'' @ namespace @ ''-'' @ metric_name @ ''-''
               @ comparison_operator @ ''-'' @ period_str @ ''-'' @ statistic)
            metric_name comparison_operator period_str (Value t) statistic namespace
            dimensions sns_topic_arn st)"

text \<open>
  \<open>process_lambda_alarms\<close>. \<open>tags\<close> is the dict of the function's tags in iteration
  order. The result is the returned value (\<open>True\<close> or \<open>None\<close>) or the exception, the
  \<open>default_alarms\<close> the caller holds afterwards, and the state.
\<close>

definition process_lambda_alarms ::
  "'f env \<Rightarrow> string \<Rightarrow> (string \<times> string) list \<Rightarrow> string \<Rightarrow> default_alarms \<Rightarrow> string option \<Rightarrow>
   'f state \<Rightarrow> (exn + bool option) \<times> default_alarms \<times> 'f state" where
  "process_lambda_alarms env function_name tags activation_tag default_alarms sns_topic_arn st =
     (if (case map_of tags activation_tag of None \<Rightarrow> ''not_found'' | Some v \<Rightarrow> v) = ''not_found''
      then (Inr (Some True), default_alarms,
            logger DEBUG (Activation_tag_not_found function_name) st)
      else
        (let st1 = logger DEBUG (Processing_function_alarms default_alarms) st
         in case collect_function_tags tags (map fst tags) default_alarms of
              (Inl e, default_alarms') \<Rightarrow> (Inl e, default_alarms', st1)
            | (Inr _, default_alarms') \<Rightarrow>
                (case subscript default_alarms' ''AWS/Lambda'' of
                   Inl e \<Rightarrow> (Inl e, default_alarms', st1)
                 | Inr b \<Rightarrow>
                     (case for_each_tag
                             (lambda_alarm env function_name
                                [\<lparr>DimName = ''FunctionName'', DimValue = function_name\<rparr>]
                                sns_topic_arn) b st1 of
                        (Inl e, st2) \<Rightarrow> (Inl e, default_alarms', st2)
                      | (Inr _, st2) \<Rightarrow> (Inr None, default_alarms', st2)))))"

section \<open>\<open>process_alarm_tags\<close>\<close>

definition valid_comparators :: "string list" where
  "valid_comparators =
     [''GreaterThanOrEqualToThreshold'', ''GreaterThanThreshold'', ''LessThanThreshold'',
      ''LessThanOrEqualToThreshold'']"

text \<open>
  The first loop: an instance tag whose key starts with \<open>AutoAlarm\<close> is appended to the
  list of its namespace (the second piece of the key) when that starts with \<open>AWS/EC2\<close>,
  and to the list of the platform when the namespace is \<open>cw_namespace\<close>.
\<close>

fun collect_instance_tags ::
  "string \<Rightarrow> string option \<Rightarrow> tag list \<Rightarrow> default_alarms \<Rightarrow> (exn + unit) \<times> default_alarms" where
  "collect_instance_tags cw_namespace platform [] default_alarms = (Inr (), default_alarms)"
| "collect_instance_tags cw_namespace platform (instance_tag # instance_tags) default_alarms =
     (if startswith (Key instance_tag) ''AutoAlarm'' then
        (case index (split_dash (Key instance_tag)) 1 of
           Inl e \<Rightarrow> (Inl e, default_alarms)
         | Inr custom_alarm_namespace \<Rightarrow>
             if startswith custom_alarm_namespace ''AWS/EC2'' then
               (case append_tag custom_alarm_namespace instance_tag default_alarms of
                  Inl e \<Rightarrow> (Inl e, default_alarms)
                | Inr default_alarms' \<Rightarrow>
                    collect_instance_tags cw_namespace platform instance_tags default_alarms')
             else if custom_alarm_namespace = cw_namespace then
               (case append_platform_tag custom_alarm_namespace platform instance_tag
                       default_alarms of
                  Inl e \<Rightarrow> (Inl e, default_alarms)
                | Inr default_alarms' \<Rightarrow>
                    collect_instance_tags cw_namespace platform instance_tags default_alarms')
             else collect_instance_tags cw_namespace platform instance_tags default_alarms)
      else collect_instance_tags cw_namespace platform instance_tags default_alarms)"

text \<open>
  \<open>instance_info.get(dim, None)\<close> for a dimension name (taken not to be \<open>'Tags'\<close>, whose
  value is no string), and \<open>metric_dimensions_map.get(namespace, list())\<close>.
\<close>

definition instance_get :: "instance_info \<Rightarrow> string \<Rightarrow> string option" where
  "instance_get info dim =
     (if dim = ''ImageId'' then Some (ImageId info) else map_of (attributes info) dim)"

definition dimension_names :: "(string \<times> string list) list \<Rightarrow> string \<Rightarrow> string list" where
  "dimension_names metric_dimensions_map namespace =
     (case map_of metric_dimensions_map namespace of None \<Rightarrow> [] | Some names \<Rightarrow> names)"

text \<open>
  The default dimensions of \<open>AWS/EC2\<close>: one for each name that has a non-empty value.
\<close>

fun static_dimensions :: "instance_info \<Rightarrow> string list \<Rightarrow> dimension list" where
  "static_dimensions info [] = []"
| "static_dimensions info (dim # dims) =
     (case instance_get info dim of
        None \<Rightarrow> static_dimensions info dims
      | Some dimension_value \<Rightarrow>
          if dimension_value \<noteq> []
          then \<lparr>DimName = dim, DimValue = dimension_value\<rparr> # static_dimensions info dims
          else static_dimensions info dims)"

text \<open>
  The body of the \<open>AWS/EC2\<close> loop. The alarm name is formatted from \<open>instance_id\<close>,
  \<open>Namespace\<close>, \<open>MetricName\<close>, \<open>ComparisonOperator\<close>, \<open>tag['Value']\<close> and \<open>Period\<close>.
\<close>

definition ec2_alarm ::
  "'f env \<Rightarrow> string \<Rightarrow> dimension list \<Rightarrow> string option \<Rightarrow> tag \<Rightarrow> 'f state \<Rightarrow>
   (exn + unit) \<times> 'f state" where
  "ec2_alarm env instance_id dimensions sns_topic_arn t st =
     (case fixed_properties (Key t) of
        Inl e \<Rightarrow> (Inl e, st)
      | Inr (namespace, metric_name, comparison_operator, period_str, statistic) \<Rightarrow>
          create_alarm env
            (''AutoAlarm-'' @ instance_id @ ''-'' @ namespace @ ''-'' @ metric_name @ ''-''
               @ comparison_operator @ ''-'' @ Value t @ ''-'' @ period_str)
            metric_name comparison_operator period_str (Value t) statistic namespace
            dimensions sns_topic_arn st)"

text \<open>
  The dimensions of the agent namespace. \<open>AutoScalingGroupName\<close> is the value of the
  first instance tag with the key \<open>aws:autoscaling:groupName\<close>; any other name is an
  attribute of the instance, and a warning is logged when it has no value.
\<close>

fun cw_agent_dimensions ::
  "string \<Rightarrow> instance_info \<Rightarrow> string list \<Rightarrow> 'f state \<Rightarrow> dimension list \<times> 'f state" where
  "cw_agent_dimensions instance_id info [] st = ([], st)"
| "cw_agent_dimensions instance_id info (dimension_name # names) st =
     (if dimension_name = ''AutoScalingGroupName'' then
        (case find (\<lambda>t. Key t = ''aws:autoscaling:groupName'') (Tags info) of
           None \<Rightarrow> cw_agent_dimensions instance_id info names st
         | Some t \<Rightarrow>
             if Value t \<noteq> [] then
               (let (ds, st') = cw_agent_dimensions instance_id info names st
                in (\<lparr>DimName = dimension_name, DimValue = Value t\<rparr> # ds, st'))
             else cw_agent_dimensions instance_id info names st)
      else
        (case instance_get info dimension_name of
           Some dimension_value \<Rightarrow>
             if dimension_value \<noteq> [] then
               (let (ds, st') = cw_agent_dimensions instance_id info names st
                in (\<lparr>DimName = dimension_name, DimValue = dimension_value\<rparr> # ds, st'))
             else cw_agent_dimensions instance_id info names
                    (logger WARNING (Dimension_has_no_value dimension_name instance_id) st)
         | None \<Rightarrow>
             cw_agent_dimensions instance_id info names
               (logger WARNING (Dimension_has_no_value dimension_name instance_id) st)))"

text \<open>
  The scan \<open>for index, prop in enumerate(alarm_properties[3:], start=3)\<close>: the index of
  the first piece that is a comparator, \<open>None\<close> when the loop ends without \<open>break\<close>.
\<close>

fun find_comparator :: "nat \<Rightarrow> string list \<Rightarrow> nat option" where
  "find_comparator i [] = None"
| "find_comparator i (prop # props) =
     (if prop \<in> set valid_comparators then Some i else find_comparator (Suc i) props)"

text \<open>
  The loop \<open>for num, dim in enumerate(additional_dimensions[::2])\<close>, on the triple of
  \<open>total_dimensions\<close>, \<open>AlarmName\<close> and \<open>properties_offset\<close>. The read
  \<open>additional_dimensions[num * 2 + 1]\<close> is an IndexError when a name has no value
  after it.
\<close>

fun pair_dimensions ::
  "string list \<Rightarrow> nat \<Rightarrow> string list \<Rightarrow> dimension list \<times> string \<times> nat \<Rightarrow>
   exn + dimension list \<times> string \<times> nat" where
  "pair_dimensions additional_dimensions num [] acc = Inr acc"
| "pair_dimensions additional_dimensions num (dim # dims) (total_dimensions, alarm_name, properties_offset) =
     (case index additional_dimensions (num * 2 + 1) of
        Inl e \<Rightarrow> Inl e
      | Inr val \<Rightarrow>
          pair_dimensions additional_dimensions (Suc num) dims
            (total_dimensions @ [\<lparr>DimName = dim, DimValue = val\<rparr>],
             alarm_name @ ''-'' @ dim @ ''-'' @ val,
             properties_offset + 2))"

text \<open>What the body of the agent loop passes to \<open>create_alarm\<close>, but the threshold.\<close>

record agent_alarm =
  alarm_name :: string
  namespace :: string
  metric_name :: string
  total_dimensions :: "dimension list"
  comparison_operator :: string
  period_str :: string
  statistic :: string

text \<open>
  The body of the agent loop up to the call of \<open>create_alarm\<close> (lines 187 to 225).
  \<open>prop_end_index\<close> is tested for truth, so \<open>None\<close> and 0 take the \<open>else\<close> branch, which
  logs and raises \<open>Exception\<close>.
\<close>

definition parse_agent_tag ::
  "string \<Rightarrow> dimension list \<Rightarrow> tag \<Rightarrow> 'f state \<Rightarrow> (exn + agent_alarm) \<times> 'f state" where
  "parse_agent_tag instance_id agent_dimensions t st =
     (let alarm_properties = split_dash (Key t)
      in case index alarm_properties 1 of
           Inl e \<Rightarrow> (Inl e, st)
         | Inr ns \<Rightarrow>
         (case index alarm_properties 2 of
           Inl e \<Rightarrow> (Inl e, st)
         | Inr mn \<Rightarrow>
         (case find_comparator 3 (drop 3 alarm_properties) of
           None \<Rightarrow> (Inl Exception, logger ERROR (Unable_to_determine_dimensions t) st)
         | Some prop_end_index \<Rightarrow>
             if prop_end_index = 0
             then (Inl Exception, logger ERROR (Unable_to_determine_dimensions t) st)
             else
               (let additional_dimensions = take (prop_end_index - 3) (drop 3 alarm_properties)
                in case pair_dimensions additional_dimensions 0
                          (every_other additional_dimensions)
                          (agent_dimensions,
                           ''AutoAlarm-'' @ instance_id @ ''-'' @ ns @ ''-'' @ mn, 0) of
                     Inl e \<Rightarrow> (Inl e, st)
                   | Inr (dims, name, properties_offset) \<Rightarrow>
                   (case index alarm_properties (properties_offset + 3) of
                     Inl e \<Rightarrow> (Inl e, st)
                   | Inr co \<Rightarrow>
                   (case index alarm_properties (properties_offset + 4) of
                     Inl e \<Rightarrow> (Inl e, st)
                   | Inr pe \<Rightarrow>
                   (case index alarm_properties (properties_offset + 5) of
                     Inl e \<Rightarrow> (Inl e, st)
                   | Inr sta \<Rightarrow>
                       (Inr \<lparr>alarm_name = name @ ''-'' @ co @ ''-'' @ pe @ ''-'' @ sta,
                             namespace = ns, metric_name = mn, total_dimensions = dims,
                             comparison_operator = co, period_str = pe, statistic = sta\<rparr>,
                        st))))))))"

definition agent_alarm ::
  "'f env \<Rightarrow> string \<Rightarrow> dimension list \<Rightarrow> string option \<Rightarrow> tag \<Rightarrow> 'f state \<Rightarrow>
   (exn + unit) \<times> 'f state" where
  "agent_alarm env instance_id agent_dimensions sns_topic_arn t st =
     (case parse_agent_tag instance_id agent_dimensions t st of
        (Inl e, st') \<Rightarrow> (Inl e, st')
      | (Inr a, st') \<Rightarrow>
          create_alarm env (alarm_name a) (metric_name a) (comparison_operator a)
            (period_str a) (Value t) (statistic a) (namespace a) (total_dimensions a)
            sns_topic_arn st')"

text \<open>
  \<open>default_alarms[cw_namespace][platform]\<close>, the list the agent loop runs over.
\<close>

definition platform_tags :: "default_alarms \<Rightarrow> string \<Rightarrow> string option \<Rightarrow> exn + tag list" where
  "platform_tags default_alarms cw_namespace platform =
     (case subscript default_alarms cw_namespace of
        Inl e \<Rightarrow> Inl e
      | Inr (Tag_list _) \<Rightarrow> Inl TypeError
      | Inr (By_platform ps) \<Rightarrow> subscript ps platform)"

text \<open>
  \<open>process_alarm_tags\<close>. The result is the exception, if one leaves the function, the
  \<open>default_alarms\<close> the caller holds afterwards, and the state.
\<close>

definition process_alarm_tags ::
  "'f env \<Rightarrow> string \<Rightarrow> instance_info \<Rightarrow> default_alarms \<Rightarrow> (string \<times> string list) list \<Rightarrow>
   string option \<Rightarrow> string \<Rightarrow> 'f state \<Rightarrow> (exn + unit) \<times> default_alarms \<times> 'f state" where
  "process_alarm_tags env instance_id info default_alarms metric_dimensions_map sns_topic_arn
     cw_namespace st =
     (case determine_platform env (ImageId info) (logger INFO (ImageId_is (ImageId info)) st) of
        (Inl e, st1) \<Rightarrow> (Inl e, default_alarms, st1)
      | (Inr platform, st1) \<Rightarrow>
      (let st2 = logger INFO (Platform_is platform) st1
       in case collect_instance_tags cw_namespace platform (Tags info) default_alarms of
        (Inl e, default_alarms') \<Rightarrow> (Inl e, default_alarms', st2)
      | (Inr _, default_alarms') \<Rightarrow>
      (let dimensions =
             static_dimensions info (dimension_names metric_dimensions_map ''AWS/EC2'')
       in case subscript default_alarms' ''AWS/EC2'' of
        Inl e \<Rightarrow> (Inl e, default_alarms', st2)
      | Inr b \<Rightarrow>
      (case for_each_tag (ec2_alarm env instance_id dimensions sns_topic_arn) b st2 of
        (Inl e, st3) \<Rightarrow> (Inl e, default_alarms', st3)
      | (Inr _, st3) \<Rightarrow>
      (case cw_agent_dimensions instance_id info
              (dimension_names metric_dimensions_map cw_namespace) st3 of
        (agent_dimensions, st4) \<Rightarrow>
      (let st5 = logger DEBUG (Cwagent_dimensions agent_dimensions) st4
       in case platform_tags default_alarms' cw_namespace platform of
        Inl e \<Rightarrow> (Inl e, default_alarms', st5)
      | Inr ts \<Rightarrow>
      (case for_each (agent_alarm env instance_id agent_dimensions sns_topic_arn) ts st5 of
        (r, st6) \<Rightarrow> (r, default_alarms', st6))))))))"

section \<open>\<open>delete_alarms\<close>\<close>

text \<open>
  \<open>delete_alarms\<close> returns \<open>True\<close>, or \<open>None\<close> after it has logged an exception; no
  exception leaves it.
\<close>

definition delete_alarms :: "'f env \<Rightarrow> string \<Rightarrow> 'f state \<Rightarrow> bool option \<times> 'f state" where
  "delete_alarms env name st =
     (let AlarmNamePrefix = ''AutoAlarm-'' @ name;
          st1 = issue (Describe_alarms AlarmNamePrefix)
                  (logger INFO (Calling_describe_alarms AlarmNamePrefix) st)
      in case cw_describe_alarms env (calls st) AlarmNamePrefix of
           Inl e \<Rightarrow> (None, logger ERROR (Error_deleting_alarms name e) st1)
         | Inr response \<Rightarrow>
             (let alarm_list = (case response of None \<Rightarrow> [] | Some names \<Rightarrow> names);
                  st2 = logger INFO (Deleting alarm_list name)
                          (logger INFO (Response_from_describe_alarms response) st1);
                  st3 = issue (Delete_alarms alarm_list) st2
              in case cw_delete_alarms env (calls st2) alarm_list of
                   Some e \<Rightarrow> (None, logger ERROR (Error_deleting_alarms name e) st3)
                 | None \<Rightarrow> (Some True, st3)))"

section \<open>Notions of the specification\<close>

text \<open>
  The dimension name/value pairs of a run of dimension tokens, in encounter order, as
  the specification reads them: the first token names a dimension, the second is its
  value, and so on.
\<close>

fun name_value_pairs :: "'a list \<Rightarrow> ('a \<times> 'a) list" where
  "name_value_pairs (n # v # rest) = (n, v) # name_value_pairs rest"
| "name_value_pairs _ = []"

text \<open>
  A word occurs in a string case-insensitively when some contiguous piece of the string
  is the word once its letters are lowered.
\<close>

definition occurs_ignoring_case :: "string \<Rightarrow> string \<Rightarrow> bool" where
  "occurs_ignoring_case w s = (\<exists>a u b. s = a @ u @ b \<and> lower u = w)"

text \<open>
  The alarm tags of a function: its tags whose key starts with \<open>AutoAlarm\<close>, in order.
  The alarm tags of an instance for a namespace: its tags whose key starts with
  \<open>AutoAlarm\<close> and has the namespace as its second piece.
\<close>

definition function_alarm_tags :: "(string \<times> string) list \<Rightarrow> tag list" where
  "function_alarm_tags tags =
     map (\<lambda>(k, v). \<lparr>Key = k, Value = v\<rparr>) (filter (\<lambda>(k, v). startswith k ''AutoAlarm'') tags)"

definition instance_alarm_tags :: "string \<Rightarrow> tag list \<Rightarrow> tag list" where
  "instance_alarm_tags ns ts =
     filter (\<lambda>t. startswith (Key t) ''AutoAlarm'' \<and> index (split_dash (Key t)) 1 = Inr ns) ts"

text \<open>The names of the alarms submitted by the \<open>put_metric_alarm\<close> calls of a trace.\<close>

fun put_alarm_names :: "'f api_call list \<Rightarrow> string list" where
  "put_alarm_names [] = []"
| "put_alarm_names (Put_metric_alarm a # cs) = AlarmName a # put_alarm_names cs"
| "put_alarm_names (c # cs) = put_alarm_names cs"

section \<open>A sample environment\<close>

text \<open>
  The concrete evaluations below run in this environment. \<open>decimal\<close> reads a non-empty
  string of the digits 0 to 9, on which it agrees with both \<open>int\<close> and \<open>float\<close> (a float
  being written as the integer it equals); every other string is refused. The image is
  an Amazon Linux one, the alarm store accepts every call, and it holds three alarms.
\<close>

definition digit :: "char \<Rightarrow> int option" where
  "digit c = (let n = (of_char c :: nat) in if 48 \<le> n \<and> n \<le> 57 then Some (int n - 48) else None)"

fun decimal_from :: "int \<Rightarrow> string \<Rightarrow> int option" where
  "decimal_from acc [] = Some acc"
| "decimal_from acc (c # cs) =
     (case digit c of None \<Rightarrow> None | Some d \<Rightarrow> decimal_from (10 * acc + d) cs)"

definition decimal :: "string \<Rightarrow> int option" where
  "decimal s = (if s = [] then None else decimal_from 0 s)"

definition stored_alarms :: "string list" where
  "stored_alarms =
     [''AutoAlarm-i-1-AWS/EC2-CPUUtilization-GreaterThanThreshold-80-5m'',
      ''AutoAlarm-i-2-AWS/EC2-CPUUtilization-GreaterThanThreshold-80-5m'',
      ''AutoAlarm-i-1-CWAgent-mem_used_percent-GreaterThanThreshold-5m-Average'']"

definition sample_env :: "int env" where
  "sample_env =
     \<lparr>int_builtin = decimal,
      float_builtin = decimal,
      ec2_describe_images =
        (\<lambda>history imageid.
           Inr (Some [\<lparr>PlatformDetails = Some ''Linux/UNIX'',
                       Description = Some ''Amazon Linux 2 AMI'',
                       Name = Some ''amzn2-ami-hvm''\<rparr>])),
      cw_put_metric_alarm = (\<lambda>history a. None),
      cw_describe_alarms =
        (\<lambda>history prefix. Inr (Some (filter (\<lambda>n. startswith n prefix) stored_alarms))),
      cw_delete_alarms = (\<lambda>history names. None)\<rparr>"

text \<open>The same, with a store that refuses the first \<open>put_metric_alarm\<close> it receives.\<close>

definition refusing_env :: "int env" where
  "refusing_env =
     sample_env\<lparr>cw_put_metric_alarm :=
       (\<lambda>history a. if history = [] then Some (ClientError ''LimitExceeded'') else None)\<rparr>"

definition start :: "int state" where
  "start = \<lparr>log = [], calls = []\<rparr>"

text \<open>The sample environment with another image behind \<open>describe_images\<close>.\<close>

definition image_env :: "image \<Rightarrow> int env" where
  "image_env img = sample_env\<lparr>ec2_describe_images := (\<lambda>history imageid. Inr (Some [img]))\<rparr>"

definition ubuntu_image :: image where
  "ubuntu_image =
     \<lparr>PlatformDetails = Some ''Linux/UNIX'', Description = Some ''Canonical, 20.04 LTS'',
      Name = Some ''Ubuntu-20.04''\<rparr>"

definition rhel_image :: image where
  "rhel_image =
     \<lparr>PlatformDetails = Some ''Red Hat Enterprise Linux'', Description = Some ''ubuntu'',
      Name = Some ''ubuntu''\<rparr>"

definition rhel_sql_image :: image where
  "rhel_sql_image =
     \<lparr>PlatformDetails = Some ''Red Hat Enterprise Linux with SQL Server Standard'',
      Description = Some ''RHEL 8 with SQL Server'', Name = Some ''RHEL-8-SQL''\<rparr>"

text \<open>Tags, instances and default alarms of the examples.\<close>

definition cpu_tag :: "string \<Rightarrow> tag" where
  "cpu_tag v =
     \<lparr>Key = ''AutoAlarm-AWS/EC2-CPUUtilization-GreaterThanThreshold-5m-Average'', Value = v\<rparr>"

definition status_tag :: "string \<Rightarrow> tag" where
  "status_tag v =
     \<lparr>Key = ''AutoAlarm-AWS/EC2-StatusCheckFailed-GreaterThanThreshold-5m-Average'', Value = v\<rparr>"

definition memory_tag :: "string \<Rightarrow> tag" where
  "memory_tag v =
     \<lparr>Key = ''AutoAlarm-CWAgent-mem_used_percent-GreaterThanThreshold-5m-Average'', Value = v\<rparr>"

definition no_comparator_tag :: "string \<Rightarrow> tag" where
  "no_comparator_tag v = \<lparr>Key = ''AutoAlarm-CWAgent-mem_used_percent-300-Average'', Value = v\<rparr>"

definition errors_tag :: "string \<Rightarrow> tag" where
  "errors_tag v =
     \<lparr>Key = ''AutoAlarm-AWS/Lambda-Errors-GreaterThanThreshold-5m-Average'', Value = v\<rparr>"

definition ec2_defaults :: "tag list \<Rightarrow> default_alarms" where
  "ec2_defaults ts =
     [(''AWS/EC2'', Tag_list ts), (''CWAgent'', By_platform [(Some ''Amazon Linux'', [])])]"

definition instance_with :: "tag list \<Rightarrow> instance_info" where
  "instance_with ts = \<lparr>Tags = ts, ImageId = ''ami-1'', attributes = [(''InstanceId'', ''i-1'')]\<rparr>"

definition function_tags :: "(string \<times> string) list" where
  "function_tags =
     [(''Create_Auto_Alarms'', ''true''),
      (''AutoAlarm-AWS/Lambda-Errors-GreaterThanThreshold-5m-Average'', ''1'')]"

definition cpu_maximum_tag :: "string \<Rightarrow> tag" where
  "cpu_maximum_tag v =
     \<lparr>Key = ''AutoAlarm-AWS/EC2-CPUUtilization-GreaterThanThreshold-5m-Maximum'', Value = v\<rparr>"

text \<open>The sample environment with a \<open>describe_images\<close> that raises.\<close>

definition no_image_env :: "int env" where
  "no_image_env =
     sample_env\<lparr>ec2_describe_images :=
       (\<lambda>history imageid. Inl (ClientError ''InvalidAMIID.NotFound''))\<rparr>"

definition tagged_instance :: instance_info where
  "tagged_instance =
     instance_with [\<lparr>Key = ''Name'', Value = ''web''\<rparr>, cpu_tag ''90'', memory_tag ''75'']"

section \<open>Facts about the state, the loops and the dicts\<close>

lemma calls_logger [simp]: "calls (logger l m st) = calls st"
  by (simp add: logger_def)

lemma log_logger [simp]: "log (logger l m st) = log st @ [(l, m)]"
  by (simp add: logger_def)

lemma calls_issue [simp]: "calls (issue c st) = calls st @ [c]"
  by (simp add: issue_def)

lemma log_issue [simp]: "log (issue c st) = log st"
  by (simp add: issue_def)

lemma put_alarm_names_append [simp]:
  "put_alarm_names (xs @ ys) = put_alarm_names xs @ put_alarm_names ys"
  by (induction xs rule: put_alarm_names.induct) simp_all

lemma for_each_append:
  "for_each body (xs @ ys) s =
     (case for_each body xs s of (Inl e, s') \<Rightarrow> (Inl e, s') | (Inr u, s') \<Rightarrow> for_each body ys s')"
  by (induction xs arbitrary: s) (auto split: prod.splits sum.splits)

lemma map_of_assign: "map_of (assign k v d) k' = (if k' = k then Some v else map_of d k')"
  by (induction d) auto

lemma assign_assign: "assign k v' (assign k v d) = assign k v' d"
  by (induction d) auto

lemma assign_commute:
  "k \<noteq> k' \<Longrightarrow> map_of d k = Some x \<Longrightarrow> map_of d k' = Some x' \<Longrightarrow>
   assign k v (assign k' v' d) = assign k' v' (assign k v d)"
  by (induction d) (auto split: if_splits)

lemma assign_same: "map_of d k = Some v \<Longrightarrow> assign k v d = d"
  by (induction d) (auto split: if_splits)

section \<open>Strings\<close>

text \<open>\<open>startswith\<close> and \<open>str_in\<close> are the prefix and the substring relation.\<close>

lemma startswith_iff: "startswith s p \<longleftrightarrow> (\<exists>b. s = p @ b)"
  unfolding startswith_def by (metis append_eq_conv_conj append_take_drop_id)

lemma str_in_iff: "str_in p s \<longleftrightarrow> (\<exists>a b. s = a @ p @ b)"
proof (induction s)
  case Nil
  then show ?case by auto
next
  case (Cons c cs)
  show ?case
  proof
    assume "str_in p (c # cs)"
    then consider "startswith (c # cs) p" | "str_in p cs" by auto
    then show "\<exists>a b. c # cs = a @ p @ b"
    proof cases
      case 1
      then obtain b where "c # cs = p @ b" using startswith_iff by blast
      then have "c # cs = [] @ p @ b" by simp
      then show ?thesis by blast
    next
      case 2
      then obtain a b where "cs = a @ p @ b" using Cons.IH by blast
      then have "c # cs = (c # a) @ p @ b" by simp
      then show ?thesis by blast
    qed
  next
    assume "\<exists>a b. c # cs = a @ p @ b"
    then obtain a b where ab: "c # cs = a @ p @ b" by blast
    show "str_in p (c # cs)"
    proof (cases a)
      case Nil
      then have "startswith (c # cs) p" using ab startswith_iff by auto
      then show ?thesis by simp
    next
      case (Cons x a')
      then have "cs = a' @ p @ b" using ab by simp
      then have "str_in p cs" using Cons.IH by blast
      then show ?thesis by simp
    qed
  qed
qed

lemma str_in_lower_iff: "str_in w (lower s) \<longleftrightarrow> occurs_ignoring_case w s"
proof
  assume "str_in w (lower s)"
  then obtain a b where "map lower_char s = a @ w @ b"
    using str_in_iff lower_def by auto
  then obtain a' r where r: "s = a' @ r" "map lower_char r = w @ b"
    by (metis map_eq_append_conv)
  then obtain u b' where "r = u @ b'" "map lower_char u = w"
    by (metis map_eq_append_conv)
  then show "occurs_ignoring_case w s"
    using r unfolding occurs_ignoring_case_def lower_def by blast
next
  assume "occurs_ignoring_case w s"
  then obtain a u b where "s = a @ u @ b" "lower u = w"
    unfolding occurs_ignoring_case_def by blast
  then have "lower s = lower a @ w @ lower b" by (auto simp: lower_def)
  then show "str_in w (lower s)" using str_in_iff by blast
qed

text \<open>
  \<open>split_dash\<close> cuts at every separator and nowhere else: joining the pieces with the
  separator gives the string back, and no piece holds a separator.
\<close>

lemma split_on_not_empty: "split_on sep s \<noteq> []"
  by (induction s) (auto split: list.splits)

lemma split_on_pieces: "\<forall>w \<in> set (split_on sep s). sep \<notin> set w"
  by (induction s) (auto split: list.splits)

lemma split_on_join:
  "concat (map (\<lambda>w. sep # w) (split_on sep s)) = sep # s"
  by (induction s) (auto split: list.splits)

section \<open>\<open>create_alarm\<close>\<close>

lemma convert_to_seconds_cases:
  obtains secs where "convert_to_seconds env s st = (Inr secs, st)"
  | e where "convert_to_seconds env s st = (Inl e, logger ERROR (Error_converting_threshold s) st)"
proof -
  have "(\<exists>secs. convert_to_seconds env s st = (Inr secs, st)) \<or>
        (\<exists>e. convert_to_seconds env s st = (Inl e, logger ERROR (Error_converting_threshold s) st))"
    unfolding convert_to_seconds_def by (simp split: sum.split)
  then show ?thesis using that by blast
qed

lemma convert_to_seconds_error:
  assumes "int_builtin env (butlast s) = None \<or> s = [] \<or> map_of seconds_per_unit (last s) = None"
  shows "\<exists>e. convert_to_seconds env s st =
               (Inl e, logger ERROR (Error_converting_threshold s) st)"
proof (cases "int_builtin env (butlast s)")
  case None
  then show ?thesis by (simp add: convert_to_seconds_def)
next
  case (Some n)
  show ?thesis
  proof (cases "s = []")
    case True
    then show ?thesis using Some by (simp add: convert_to_seconds_def index_def)
  next
    case False
    then have "index s (length s - 1) = Inr (last s)"
      by (simp add: index_def last_conv_nth)
    moreover have "map_of seconds_per_unit (last s) = None"
      using assms Some False by auto
    ultimately show ?thesis
      using Some by (simp add: convert_to_seconds_def subscript_def)
  qed
qed

lemma create_alarm_bad_threshold:
  "float_builtin env threshold_str = None \<Longrightarrow>
   fst (create_alarm env name mn co pe threshold_str sta ns dims sns st) = Inl ValueError
   \<and> calls (snd (create_alarm env name mn co pe threshold_str sta ns dims sns st)) = calls st"
  by (cases rule: convert_to_seconds_cases [of env pe st]) (simp_all add: create_alarm_def)

lemma create_alarm_returns:
  "float_builtin env threshold_str = Some thr \<Longrightarrow>
   fst (create_alarm env name mn co pe threshold_str sta ns dims sns st) = Inr ()
   \<and> put_alarm_names
       (calls (snd (create_alarm env name mn co pe threshold_str sta ns dims sns st))) =
     put_alarm_names (calls st) @ [name]"
  by (cases rule: convert_to_seconds_cases [of env pe st])
     (simp_all add: create_alarm_def Let_def split: option.splits)

lemma create_alarm_put_refused:
  assumes "\<forall>a. cw_put_metric_alarm env (calls st) a = Some e"
    and "float_builtin env threshold_str = Some thr"
  shows "last (log (snd (create_alarm env name mn co pe threshold_str sta ns dims sns st))) =
           (ERROR, Error_creating_alarm name e)"
  using assms
  by (cases rule: convert_to_seconds_cases [of env pe st]) (simp_all add: create_alarm_def Let_def)

lemma fixed_properties_six:
  "split_dash key = [prefix, ns, mn, co, pe, sta] \<Longrightarrow>
   fixed_properties key = Inr (ns, mn, co, pe, sta)"
  by (simp add: fixed_properties_def)

section \<open>Alarm names of the fixed-arity keys\<close>

text \<open>
  Claim C1. The claim is that for a tag key of exactly the six pieces prefix, Namespace,
  MetricName, ComparisonOperator, Period, Statistic both routines build the alarm name
  \<open>AutoAlarm-<resource>-<Namespace>-<MetricName>-<ComparisonOperator>-<Period>-<Statistic>\<close>.
  The loop of \<open>process_lambda_alarms\<close> does, as the agent loop of \<open>process_alarm_tags\<close>
  does for its keys. The \<open>AWS/EC2\<close> loop of \<open>process_alarm_tags\<close> does otherwise: it
  formats the tag value where the Period belongs and the Period where the Statistic
  belongs, so the name it passes to \<open>create_alarm\<close> is
  \<open>AutoAlarm-<instance>-<Namespace>-<MetricName>-<ComparisonOperator>-<tag value>-<Period>\<close>,
  the threshold is inserted and the Statistic is missing, and two tags that differ only
  in their Statistic get one alarm name. When the threshold is a float, the alarm
  submitted to the store bears the name passed to \<open>create_alarm\<close>.
\<close>

theorem fixed_arity_alarm_names:
  assumes "split_dash (Key t) = [prefix, ns, mn, co, pe, sta]"
  shows "lambda_alarm env function_name dims sns t st =
           create_alarm env
             (''AutoAlarm-'' @ function_name @ ''-'' @ ns @ ''-'' @ mn @ ''-'' @ co @ ''-'' @ pe
                @ ''-'' @ sta)
             mn co pe (Value t) sta ns dims sns st
         \<and> ec2_alarm env instance_id dims sns t st =
           create_alarm env
             (''AutoAlarm-'' @ instance_id @ ''-'' @ ns @ ''-'' @ mn @ ''-'' @ co @ ''-'' @ Value t
                @ ''-'' @ pe)
             mn co pe (Value t) sta ns dims sns st
         \<and> (float_builtin env (Value t) = Some thr \<longrightarrow>
              put_alarm_names (calls (snd (lambda_alarm env function_name dims sns t st))) =
                put_alarm_names (calls st) @
                  [''AutoAlarm-'' @ function_name @ ''-'' @ ns @ ''-'' @ mn @ ''-'' @ co @ ''-''
                     @ pe @ ''-'' @ sta]
              \<and> put_alarm_names (calls (snd (ec2_alarm env instance_id dims sns t st))) =
                put_alarm_names (calls st) @
                  [''AutoAlarm-'' @ instance_id @ ''-'' @ ns @ ''-'' @ mn @ ''-'' @ co @ ''-''
                     @ Value t @ ''-'' @ pe])"
  using create_alarm_returns [of env "Value t" thr]
  by (simp add: lambda_alarm_def ec2_alarm_def fixed_properties_six [OF assms])

theorem fixed_arity_alarm_names_witness:
  "split_dash (Key (cpu_tag ''80'')) =
     [''AutoAlarm'', ''AWS/EC2'', ''CPUUtilization'', ''GreaterThanThreshold'', ''5m'', ''Average'']
   \<and> lambda_alarm sample_env ''fn'' [] None (cpu_tag ''80'') start =
       create_alarm sample_env ''AutoAlarm-fn-AWS/EC2-CPUUtilization-GreaterThanThreshold-5m-Average''
         ''CPUUtilization'' ''GreaterThanThreshold'' ''5m'' ''80'' ''Average'' ''AWS/EC2'' [] None start
   \<and> ec2_alarm sample_env ''i-1'' [] None (cpu_tag ''80'') start =
       create_alarm sample_env ''AutoAlarm-i-1-AWS/EC2-CPUUtilization-GreaterThanThreshold-80-5m''
         ''CPUUtilization'' ''GreaterThanThreshold'' ''5m'' ''80'' ''Average'' ''AWS/EC2'' [] None start
   \<and> put_alarm_names (calls (snd (lambda_alarm sample_env ''fn'' [] None (cpu_tag ''80'') start))) =
       [''AutoAlarm-fn-AWS/EC2-CPUUtilization-GreaterThanThreshold-5m-Average'']
   \<and> put_alarm_names (calls (snd (ec2_alarm sample_env ''i-1'' [] None (cpu_tag ''80'') start))) =
       [''AutoAlarm-i-1-AWS/EC2-CPUUtilization-GreaterThanThreshold-80-5m'']
   \<and> put_alarm_names (calls (snd (snd (process_alarm_tags sample_env ''i-1'' (instance_with [])
        (ec2_defaults [cpu_tag ''80'', cpu_maximum_tag ''80''])
        [(''AWS/EC2'', [''InstanceId''])] None ''CWAgent'' start)))) =
       [''AutoAlarm-i-1-AWS/EC2-CPUUtilization-GreaterThanThreshold-80-5m'',
        ''AutoAlarm-i-1-AWS/EC2-CPUUtilization-GreaterThanThreshold-80-5m'']"
proof -
  have k: "split_dash (Key (cpu_tag ''80'')) =
     [''AutoAlarm'', ''AWS/EC2'', ''CPUUtilization'', ''GreaterThanThreshold'', ''5m'', ''Average'']"
    by code_simp
  have v: "Value (cpu_tag ''80'') = ''80''" by (simp add: cpu_tag_def)
  have f: "float_builtin sample_env ''80'' = Some 80" by code_simp
  have c: "calls start = ([] :: int api_call list)" by (simp add: start_def)
  have two: "put_alarm_names (calls (snd (snd (process_alarm_tags sample_env ''i-1'' (instance_with [])
        (ec2_defaults [cpu_tag ''80'', cpu_maximum_tag ''80''])
        [(''AWS/EC2'', [''InstanceId''])] None ''CWAgent'' start)))) =
       [''AutoAlarm-i-1-AWS/EC2-CPUUtilization-GreaterThanThreshold-80-5m'',
        ''AutoAlarm-i-1-AWS/EC2-CPUUtilization-GreaterThanThreshold-80-5m'']"
    by code_simp
  show ?thesis
    using fixed_arity_alarm_names [OF k, of sample_env "''fn''" "[]" None start "''i-1''" 80] k v f c two
    by (simp cong: conj_cong)
qed

section \<open>The scan of an agent-namespace tag key\<close>

lemma find_comparator_first:
  "\<forall>d \<in> set ds. d \<notin> set valid_comparators \<Longrightarrow> co \<in> set valid_comparators \<Longrightarrow>
   find_comparator i (ds @ co # rest) = Some (i + length ds)"
  by (induction ds arbitrary: i) auto

lemma find_comparator_none:
  "\<forall>d \<in> set ds. d \<notin> set valid_comparators \<Longrightarrow> find_comparator i ds = None"
  by (induction ds arbitrary: i) auto

lemma index_append_right: "index (xs @ y # ys) (length xs) = Inr y"
  by (simp add: index_def)

lemma pair_dimensions_pairs:
  "even (length xs) \<Longrightarrow> length pre = 2 * num \<Longrightarrow>
   pair_dimensions (pre @ xs) num (every_other xs) (td, an, off) =
     Inr (td @ map (\<lambda>(n, v). \<lparr>DimName = n, DimValue = v\<rparr>) (name_value_pairs xs),
          an @ concat (map (\<lambda>(n, v). ''-'' @ n @ ''-'' @ v) (name_value_pairs xs)),
          off + length xs)"
proof (induction xs arbitrary: pre num td an off rule: name_value_pairs.induct)
  case (1 n v rest)
  have ix: "index (pre @ n # v # rest) (num * 2 + 1) = Inr v"
    using 1(3) index_append_right [of "pre @ [n]" v rest] by (simp add: mult.commute)
  have "pair_dimensions ((pre @ [n, v]) @ rest) (Suc num) (every_other rest)
          (td @ [\<lparr>DimName = n, DimValue = v\<rparr>], an @ ''-'' @ n @ ''-'' @ v, off + 2) =
        Inr ((td @ [\<lparr>DimName = n, DimValue = v\<rparr>]) @
               map (\<lambda>(n, v). \<lparr>DimName = n, DimValue = v\<rparr>) (name_value_pairs rest),
             (an @ ''-'' @ n @ ''-'' @ v) @
               concat (map (\<lambda>(n, v). ''-'' @ n @ ''-'' @ v) (name_value_pairs rest)),
             (off + 2) + length rest)"
    using 1(2,3) by (intro 1(1)) auto
  then show ?case using ix by simp
qed simp_all

lemma length_name_value_pairs:
  "even (length xs) \<Longrightarrow> 2 * length (name_value_pairs xs) = length xs"
  by (induction xs rule: name_value_pairs.induct) auto

text \<open>
  Claim C2. Let the key of a tag split into a prefix, a namespace, a metric name, an
  even number \<open>2k\<close> of dimension tokens (the tokens before the first comparator, so none
  of them is a comparator), a comparator and two more tokens. Then the body of the
  agent loop of \<open>process_alarm_tags\<close> raises nothing, logs nothing, and reaches
  \<open>create_alarm\<close> with exactly the \<open>k\<close> name/value pairs of the dimension tokens, in
  order, after the agent dimensions, with the three last tokens as ComparisonOperator,
  Period and Statistic, and with the alarm name
  \<open>AutoAlarm-<instance>-<Namespace>-<MetricName>[-<name>-<value>]*-<ComparisonOperator>-<Period>-<Statistic>\<close>.
\<close>

theorem agent_tag_parse:
  assumes key: "split_dash (Key t) = prefix # ns # mn # ds @ [co, pe, sta]"
    and ev: "length ds = 2 * k"
    and nocmp: "\<forall>d \<in> set ds. d \<notin> set valid_comparators"
    and co: "co \<in> set valid_comparators"
  shows "parse_agent_tag instance_id agent_dimensions t st =
           (Inr \<lparr>alarm_name =
                   ''AutoAlarm-'' @ instance_id @ ''-'' @ ns @ ''-'' @ mn
                     @ concat (map (\<lambda>(n, v). ''-'' @ n @ ''-'' @ v) (name_value_pairs ds))
                     @ ''-'' @ co @ ''-'' @ pe @ ''-'' @ sta,
                 namespace = ns, metric_name = mn,
                 total_dimensions =
                   agent_dimensions
                     @ map (\<lambda>(n, v). \<lparr>DimName = n, DimValue = v\<rparr>) (name_value_pairs ds),
                 comparison_operator = co, period_str = pe, statistic = sta\<rparr>, st)
         \<and> length (name_value_pairs ds) = k"
proof -
  let ?ps = "prefix # ns # mn # ds @ [co, pe, sta]"
  have ev': "even (length ds)" using ev by simp
  have i1: "index ?ps (Suc 0) = Inr ns" and i2: "index ?ps 2 = Inr mn"
    by (simp_all add: index_def)
  have d3: "drop 3 ?ps = ds @ co # [pe, sta]" by simp
  have fc: "find_comparator 3 (ds @ co # [pe, sta]) = Some (3 + length ds)"
    using find_comparator_first [OF nocmp co] .
  have tk: "take (3 + length ds - 3) (ds @ co # [pe, sta]) = ds" by simp
  have pd: "pair_dimensions ds 0 (every_other ds)
              (agent_dimensions, ''AutoAlarm-'' @ instance_id @ ''-'' @ ns @ ''-'' @ mn, 0) =
            Inr (agent_dimensions
                   @ map (\<lambda>(n, v). \<lparr>DimName = n, DimValue = v\<rparr>) (name_value_pairs ds),
                 (''AutoAlarm-'' @ instance_id @ ''-'' @ ns @ ''-'' @ mn)
                   @ concat (map (\<lambda>(n, v). ''-'' @ n @ ''-'' @ v) (name_value_pairs ds)),
                 0 + length ds)"
    using pair_dimensions_pairs [OF ev', of "[]" 0] by simp
  have j3: "index ?ps (0 + length ds + 3) = Inr co"
    by (simp add: index_def eval_nat_numeral nth_append)
  have j4: "index ?ps (0 + length ds + 4) = Inr pe"
    by (simp add: index_def eval_nat_numeral nth_append)
  have j5: "index ?ps (0 + length ds + 5) = Inr sta"
    by (simp add: index_def eval_nat_numeral nth_append)
  have "parse_agent_tag instance_id agent_dimensions t st =
           (Inr \<lparr>alarm_name =
                   ''AutoAlarm-'' @ instance_id @ ''-'' @ ns @ ''-'' @ mn
                     @ concat (map (\<lambda>(n, v). ''-'' @ n @ ''-'' @ v) (name_value_pairs ds))
                     @ ''-'' @ co @ ''-'' @ pe @ ''-'' @ sta,
                 namespace = ns, metric_name = mn,
                 total_dimensions =
                   agent_dimensions
                     @ map (\<lambda>(n, v). \<lparr>DimName = n, DimValue = v\<rparr>) (name_value_pairs ds),
                 comparison_operator = co, period_str = pe, statistic = sta\<rparr>, st)"
    using pd j3 j4 j5 by (simp add: parse_agent_tag_def key Let_def i1 i2 fc)
  moreover have "length (name_value_pairs ds) = k"
    using length_name_value_pairs [OF ev'] ev by simp
  ultimately show ?thesis by simp
qed

theorem agent_tag_parse_witness:
  "split_dash ''AutoAlarm-CWAgent-mem_used_percent-disk_device-xvda-GreaterThanThreshold-300-Average'' =
     [''AutoAlarm'', ''CWAgent'', ''mem_used_percent'', ''disk_device'', ''xvda'',
      ''GreaterThanThreshold'', ''300'', ''Average'']
   \<and> parse_agent_tag ''i-1'' []
     \<lparr>Key = ''AutoAlarm-CWAgent-mem_used_percent-disk_device-xvda-GreaterThanThreshold-300-Average'',
      Value = ''80''\<rparr> start =
   (Inr \<lparr>alarm_name =
           ''AutoAlarm-i-1-CWAgent-mem_used_percent-disk_device-xvda-GreaterThanThreshold-300-Average'',
         namespace = ''CWAgent'', metric_name = ''mem_used_percent'',
         total_dimensions = [\<lparr>DimName = ''disk_device'', DimValue = ''xvda''\<rparr>],
         comparison_operator = ''GreaterThanThreshold'', period_str = ''300'',
         statistic = ''Average''\<rparr>, start)
   \<and> length (name_value_pairs [''disk_device'', ''xvda'']) = 1"
  using agent_tag_parse [of "\<lparr>Key = ''AutoAlarm-CWAgent-mem_used_percent-disk_device-xvda-GreaterThanThreshold-300-Average'', Value = ''80''\<rparr>"
      "''AutoAlarm''" "''CWAgent''" "''mem_used_percent''" "[''disk_device'', ''xvda'']"
      "''GreaterThanThreshold''" "''300''" "''Average''" 1 "''i-1''" "[]" start]
  by (simp add: split_dash_def valid_comparators_def)

section \<open>A key without a comparator\<close>

lemma parse_agent_tag_no_comparator:
  assumes "2 < length (split_dash (Key t))"
    and "\<forall>p \<in> set (drop 3 (split_dash (Key t))). p \<notin> set valid_comparators"
  shows "parse_agent_tag instance_id agent_dimensions t st =
           (Inl Exception, logger ERROR (Unable_to_determine_dimensions t) st)"
  using assms(1) find_comparator_none [OF assms(2), of 3]
  by (simp add: parse_agent_tag_def Let_def index_def)

text \<open>
  Claim C3, as the code has it. Let the key of an agent-namespace tag have at least
  three pieces, none of which from index 3 on is a comparator. When the agent loop of
  \<open>process_alarm_tags\<close> reaches that tag, it logs the error
  \<open>Unable to determine the dimensions for alarm tag\<close> and raises \<open>Exception\<close>: the
  exception ends the loop and leaves \<open>process_alarm_tags\<close>, so the tags after it are
  not processed (the alarms of the tags before it stay created).
\<close>

theorem malformed_agent_tag_aborts:
  assumes "2 < length (split_dash (Key t))"
    and "\<forall>p \<in> set (drop 3 (split_dash (Key t))). p \<notin> set valid_comparators"
  shows "for_each (agent_alarm env instance_id agent_dimensions sns_topic_arn)
           (before @ t # rest) st =
         (case for_each (agent_alarm env instance_id agent_dimensions sns_topic_arn) before st of
            (Inl e, st') \<Rightarrow> (Inl e, st')
          | (Inr u, st') \<Rightarrow>
              (Inl Exception, logger ERROR (Unable_to_determine_dimensions t) st'))"
  by (simp add: for_each_append agent_alarm_def parse_agent_tag_no_comparator [OF assms]
        split: prod.splits sum.splits)

theorem malformed_agent_tag_aborts_witness:
  "for_each (agent_alarm sample_env ''i-1'' [] None)
     ([] @ no_comparator_tag ''80'' # [memory_tag ''80'']) start =
   (Inl Exception,
    \<lparr>log = [(ERROR, Unable_to_determine_dimensions (no_comparator_tag ''80''))], calls = []\<rparr>)"
proof -
  have l: "2 < length (split_dash (Key (no_comparator_tag ''80'')))"
    by code_simp
  have n: "\<forall>p \<in> set (drop 3 (split_dash (Key (no_comparator_tag ''80'')))).
             p \<notin> set valid_comparators"
    by (simp add: no_comparator_tag_def split_dash_def valid_comparators_def)
  show ?thesis
    using malformed_agent_tag_aborts [OF l n, of sample_env "''i-1''" "[]" None "[]"
        "[memory_tag ''80'']" start]
    by (simp add: logger_def start_def)
qed

theorem malformed_agent_tag_counterexample:
  "fst (process_alarm_tags sample_env ''i-1''
          (instance_with [no_comparator_tag ''80'', memory_tag ''80'']) (ec2_defaults [])
          [(''AWS/EC2'', [''InstanceId''])] None ''CWAgent'' start) = Inl Exception
   \<and> put_alarm_names (calls (snd (snd (process_alarm_tags sample_env ''i-1''
          (instance_with [no_comparator_tag ''80'', memory_tag ''80'']) (ec2_defaults [])
          [(''AWS/EC2'', [''InstanceId''])] None ''CWAgent'' start)))) = []
   \<and> put_alarm_names (calls (snd (snd (process_alarm_tags sample_env ''i-1''
          (instance_with [memory_tag ''80'']) (ec2_defaults [])
          [(''AWS/EC2'', [''InstanceId''])] None ''CWAgent'' start)))) =
       [''AutoAlarm-i-1-CWAgent-mem_used_percent-GreaterThanThreshold-5m-Average'']"
  by code_simp

section \<open>A Period or a Threshold that does not parse\<close>

text \<open>
  Claim C4. The claim is that a Period with an unrecognized unit or a non-numeric
  magnitude ends the creation of its alarm with no \<open>put_metric_alarm\<close> call. The code
  does otherwise: after it has logged the failure of \<open>convert_to_seconds\<close>, the first
  \<open>try\<close> of \<open>create_alarm\<close> falls through, and when the threshold is a float the
  function calls \<open>put_metric_alarm\<close> with the Period string as it came, then returns
  without an exception.
\<close>

theorem bad_period_still_put:
  assumes "int_builtin env (butlast pe) = None \<or> pe = [] \<or>
           map_of seconds_per_unit (last pe) = None"
    and "float_builtin env threshold_str = Some thr"
  shows "\<exists>e m. fst (create_alarm env name mn co pe threshold_str sta ns dims sns st) = Inr ()
     \<and> calls (snd (create_alarm env name mn co pe threshold_str sta ns dims sns st)) =
         calls st @
           [Put_metric_alarm
              \<lparr>AlarmName = name,
               AlarmDescription = ''Alarm created by lambda function CloudWatchAutoAlarms'',
               MetricName = mn, Namespace = ns, Dimensions = dims,
               Period = Unconverted pe, EvaluationPeriods = 1, Threshold = thr,
               ComparisonOperator = co, Statistic = sta,
               AlarmActions = (case sns of None \<Rightarrow> None | Some arn \<Rightarrow> Some [arn])\<rparr>]
     \<and> log (snd (create_alarm env name mn co pe threshold_str sta ns dims sns st)) =
         log st @ [(ERROR, Error_converting_threshold pe),
                   (ERROR, Error_converting_Period pe name e), m]"
proof -
  obtain e where "convert_to_seconds env pe st =
                    (Inl e, logger ERROR (Error_converting_threshold pe) st)"
    using convert_to_seconds_error [OF assms(1)] by blast
  then show ?thesis
    using assms(2) by (auto simp: create_alarm_def Let_def split: option.splits)
qed

theorem bad_period_still_put_witness:
  "create_alarm sample_env ''AutoAlarm-i-1-AWS/EC2-CPUUtilization-GreaterThanThreshold-80-5x''
     ''CPUUtilization'' ''GreaterThanThreshold'' ''5x'' ''80'' ''Average'' ''AWS/EC2'' [] None start =
   (Inr (),
    \<lparr>log =
       [(ERROR, Error_converting_threshold ''5x''),
        (ERROR, Error_converting_Period ''5x''
                  ''AutoAlarm-i-1-AWS/EC2-CPUUtilization-GreaterThanThreshold-80-5x'' KeyError),
        (INFO, Created_alarm ''AutoAlarm-i-1-AWS/EC2-CPUUtilization-GreaterThanThreshold-80-5x'')],
     calls =
       [Put_metric_alarm
          \<lparr>AlarmName = ''AutoAlarm-i-1-AWS/EC2-CPUUtilization-GreaterThanThreshold-80-5x'',
           AlarmDescription = ''Alarm created by lambda function CloudWatchAutoAlarms'',
           MetricName = ''CPUUtilization'', Namespace = ''AWS/EC2'', Dimensions = [],
           Period = Unconverted ''5x'', EvaluationPeriods = 1, Threshold = 80,
           ComparisonOperator = ''GreaterThanThreshold'', Statistic = ''Average'',
           AlarmActions = None\<rparr>]\<rparr>)
   \<and> map_of seconds_per_unit (last ''5x'') = None"
proof -
  have u: "int_builtin sample_env (butlast ''5x'') = None \<or> ''5x'' = [] \<or>
           map_of seconds_per_unit (last ''5x'') = None"
    by (simp add: seconds_per_unit_def)
  have f: "float_builtin sample_env ''80'' = Some 80" by code_simp
  have "create_alarm sample_env ''AutoAlarm-i-1-AWS/EC2-CPUUtilization-GreaterThanThreshold-80-5x''
     ''CPUUtilization'' ''GreaterThanThreshold'' ''5x'' ''80'' ''Average'' ''AWS/EC2'' [] None start =
   (Inr (),
    \<lparr>log =
       [(ERROR, Error_converting_threshold ''5x''),
        (ERROR, Error_converting_Period ''5x''
                  ''AutoAlarm-i-1-AWS/EC2-CPUUtilization-GreaterThanThreshold-80-5x'' KeyError),
        (INFO, Created_alarm ''AutoAlarm-i-1-AWS/EC2-CPUUtilization-GreaterThanThreshold-80-5x'')],
     calls =
       [Put_metric_alarm
          \<lparr>AlarmName = ''AutoAlarm-i-1-AWS/EC2-CPUUtilization-GreaterThanThreshold-80-5x'',
           AlarmDescription = ''Alarm created by lambda function CloudWatchAutoAlarms'',
           MetricName = ''CPUUtilization'', Namespace = ''AWS/EC2'', Dimensions = [],
           Period = Unconverted ''5x'', EvaluationPeriods = 1, Threshold = 80,
           ComparisonOperator = ''GreaterThanThreshold'', Statistic = ''Average'',
           AlarmActions = None\<rparr>]\<rparr>)"
    by code_simp
  then show ?thesis
    using bad_period_still_put [OF u f, of
        "''AutoAlarm-i-1-AWS/EC2-CPUUtilization-GreaterThanThreshold-80-5x''"
        "''CPUUtilization''" "''GreaterThanThreshold''" "''Average''" "''AWS/EC2''" "[]" None start]
    by (simp add: seconds_per_unit_def)
qed

text \<open>
  Claim C5. The claim is that a Threshold that is no float is fatal for its alarm only
  and that the error stays inside \<open>create_alarm\<close>. The code does otherwise:
  \<open>float(Threshold)\<close> stands between the two \<open>try\<close> blocks of \<open>create_alarm\<close>, so its
  ValueError leaves \<open>create_alarm\<close> (whatever the other arguments are), no
  \<open>put_metric_alarm\<close> call is issued, and the loop over the tags ends there: the tags
  after it are not processed.
\<close>

theorem bad_threshold_raises:
  assumes "float_builtin env (Value t) = None"
    and "split_dash (Key t) = [prefix, ns, mn, co, pe, sta]"
  shows "fst (create_alarm env name mn' co' pe' (Value t) sta' ns' dims' sns' st') =
           Inl ValueError
     \<and> calls (snd (create_alarm env name mn' co' pe' (Value t) sta' ns' dims' sns' st')) =
         calls st'
     \<and> for_each (ec2_alarm env instance_id dims sns) (t # rest) st =
         (Inl ValueError, snd (ec2_alarm env instance_id dims sns t st))
     \<and> calls (snd (ec2_alarm env instance_id dims sns t st)) = calls st"
proof -
  let ?name = "''AutoAlarm-'' @ instance_id @ ''-'' @ ns @ ''-'' @ mn @ ''-'' @ co @ ''-''
               @ Value t @ ''-'' @ pe"
  have eq: "ec2_alarm env instance_id dims sns t st =
            create_alarm env ?name mn co pe (Value t) sta ns dims sns st"
    by (simp add: ec2_alarm_def fixed_properties_six [OF assms(2)])
  have r: "fst (ec2_alarm env instance_id dims sns t st) = Inl ValueError"
    and c: "calls (snd (ec2_alarm env instance_id dims sns t st)) = calls st"
    unfolding eq using create_alarm_bad_threshold [OF assms(1)] by blast+
  have f: "for_each (ec2_alarm env instance_id dims sns) (t # rest) st =
         (Inl ValueError, snd (ec2_alarm env instance_id dims sns t st))"
    using r by (cases "ec2_alarm env instance_id dims sns t st") simp
  show ?thesis
    using create_alarm_bad_threshold [OF assms(1)] f c by blast
qed

theorem bad_threshold_raises_witness:
  "for_each (ec2_alarm sample_env ''i-1'' [] None) [cpu_tag ''eighty'', status_tag ''1''] start =
     (Inl ValueError, start)
   \<and> fst (process_alarm_tags sample_env ''i-1'' (instance_with [])
          (ec2_defaults [cpu_tag ''eighty'', status_tag ''1''])
          [(''AWS/EC2'', [''InstanceId''])] None ''CWAgent'' start) = Inl ValueError
   \<and> put_alarm_names (calls (snd (snd (process_alarm_tags sample_env ''i-1'' (instance_with [])
          (ec2_defaults [cpu_tag ''eighty'', status_tag ''1''])
          [(''AWS/EC2'', [''InstanceId''])] None ''CWAgent'' start)))) = []
   \<and> put_alarm_names (calls (snd (snd (process_alarm_tags sample_env ''i-1'' (instance_with [])
          (ec2_defaults [status_tag ''1''])
          [(''AWS/EC2'', [''InstanceId''])] None ''CWAgent'' start)))) =
       [''AutoAlarm-i-1-AWS/EC2-StatusCheckFailed-GreaterThanThreshold-1-5m'']"
proof -
  have h: "float_builtin sample_env (Value (cpu_tag ''eighty'')) = None"
    by code_simp
  have k: "split_dash (Key (cpu_tag ''eighty'')) =
     [''AutoAlarm'', ''AWS/EC2'', ''CPUUtilization'', ''GreaterThanThreshold'', ''5m'', ''Average'']"
    by code_simp
  have s: "snd (ec2_alarm sample_env ''i-1'' [] None (cpu_tag ''eighty'') start) = start"
    by code_simp
  have p: "fst (process_alarm_tags sample_env ''i-1'' (instance_with [])
          (ec2_defaults [cpu_tag ''eighty'', status_tag ''1''])
          [(''AWS/EC2'', [''InstanceId''])] None ''CWAgent'' start) = Inl ValueError
   \<and> put_alarm_names (calls (snd (snd (process_alarm_tags sample_env ''i-1'' (instance_with [])
          (ec2_defaults [cpu_tag ''eighty'', status_tag ''1''])
          [(''AWS/EC2'', [''InstanceId''])] None ''CWAgent'' start)))) = []
   \<and> put_alarm_names (calls (snd (snd (process_alarm_tags sample_env ''i-1'' (instance_with [])
          (ec2_defaults [status_tag ''1''])
          [(''AWS/EC2'', [''InstanceId''])] None ''CWAgent'' start)))) =
       [''AutoAlarm-i-1-AWS/EC2-StatusCheckFailed-GreaterThanThreshold-1-5m'']"
    by code_simp
  show ?thesis
    using bad_threshold_raises [OF h k, where instance_id = "''i-1''" and dims = "[]"
        and sns = None and rest = "[status_tag ''1'']" and st = start] s p
    by simp
qed

section \<open>The platform of an image\<close>

lemma fst_determine_platform:
  "ec2_describe_images env (calls st) imageid = Inr (Some (img # imgs)) \<Longrightarrow>
   PlatformDetails img = Some pd \<Longrightarrow>
   fst (determine_platform env imageid st) = platform_of pd img"
  by (simp add: determine_platform_def Let_def split: sum.splits)

lemma determine_platform_no_image:
  "ec2_describe_images env (calls st) imageid = Inr None \<or>
   ec2_describe_images env (calls st) imageid = Inr (Some []) \<Longrightarrow>
   fst (determine_platform env imageid st) = Inr None"
  by (auto simp: determine_platform_def Let_def)

text \<open>
  Claim C6, as the code has it. \<open>determine_platform\<close> returns what the chain of tests
  gives for the \<open>PlatformDetails\<close> of the first image, and \<open>None\<close> when the response has
  no image. The tests run in order: details that contain \<open>Red Hat\<close>, and neither
  \<open>Windows\<close> nor \<open>SQL Server\<close>, give \<open>Red Hat\<close> whatever the name and the description
  are; details that contain \<open>Linux/UNIX\<close> and none of \<open>Windows\<close>, \<open>SQL Server\<close>,
  \<open>Red Hat\<close>, \<open>SUSE\<close> give, for an image that has a name and a description, \<open>Ubuntu\<close>
  exactly when \<open>ubuntu\<close> occurs case-insensitively in the name or the description, and
  \<open>Amazon Linux\<close> otherwise; details that contain none of the five give \<open>None\<close>, not
  an error.
\<close>

theorem platform_classification:
  "(ec2_describe_images env (calls st) imageid = Inr (Some (img # imgs)) \<and>
    PlatformDetails img = Some pd \<longrightarrow>
      fst (determine_platform env imageid st) = platform_of pd img)
   \<and> (ec2_describe_images env (calls st) imageid = Inr None \<or>
      ec2_describe_images env (calls st) imageid = Inr (Some []) \<longrightarrow>
        fst (determine_platform env imageid st) = Inr None)
   \<and> (str_in ''Red Hat'' pd \<and> \<not> str_in ''Windows'' pd \<and> \<not> str_in ''SQL Server'' pd \<longrightarrow>
        platform_of pd img = Inr (Some ''Red Hat''))
   \<and> (str_in ''Linux/UNIX'' pd \<and> \<not> str_in ''Windows'' pd \<and> \<not> str_in ''SQL Server'' pd \<and>
      \<not> str_in ''Red Hat'' pd \<and> \<not> str_in ''SUSE'' pd \<and>
      Description img = Some d \<and> Name img = Some n \<longrightarrow>
        platform_of pd img =
          Inr (Some (if occurs_ignoring_case ''ubuntu'' n \<or> occurs_ignoring_case ''ubuntu'' d
                     then ''Ubuntu'' else ''Amazon Linux'')))
   \<and> (\<not> str_in ''Windows'' pd \<and> \<not> str_in ''SQL Server'' pd \<and> \<not> str_in ''Red Hat'' pd \<and>
      \<not> str_in ''SUSE'' pd \<and> \<not> str_in ''Linux/UNIX'' pd \<longrightarrow>
        platform_of pd img = Inr None)"
  using fst_determine_platform [of env st imageid img imgs pd]
    determine_platform_no_image [of env st imageid]
  by (simp add: platform_of_def str_in_lower_iff [symmetric])

theorem platform_classification_witness:
  "fst (determine_platform (image_env ubuntu_image) ''ami-1'' start) = Inr (Some ''Ubuntu'')
   \<and> fst (determine_platform (image_env rhel_image) ''ami-1'' start) = Inr (Some ''Red Hat'')
   \<and> fst (determine_platform sample_env ''ami-1'' start) = Inr (Some ''Amazon Linux'')"
proof -
  have u: "occurs_ignoring_case ''ubuntu'' ''Ubuntu-20.04''"
    unfolding str_in_lower_iff [symmetric] by code_simp
  have "platform_of ''Linux/UNIX'' ubuntu_image = Inr (Some ''Ubuntu'')"
    using platform_classification [of sample_env start "''ami-1''" ubuntu_image "[]" "''Linux/UNIX''"
        "''Canonical, 20.04 LTS''" "''Ubuntu-20.04''"] u
    by (simp add: startswith_def ubuntu_image_def)
  moreover have "fst (determine_platform (image_env ubuntu_image) ''ami-1'' start) =
                 platform_of ''Linux/UNIX'' ubuntu_image"
    using platform_classification [of "image_env ubuntu_image" start "''ami-1''" ubuntu_image "[]"
        "''Linux/UNIX''"]
    by (simp add: image_env_def ubuntu_image_def)
  moreover have "fst (determine_platform (image_env rhel_image) ''ami-1'' start) = Inr (Some ''Red Hat'')"
    by code_simp
  moreover have "fst (determine_platform sample_env ''ami-1'' start) = Inr (Some ''Amazon Linux'')"
    by code_simp
  ultimately show ?thesis by simp
qed

theorem platform_classification_counterexample:
  "str_in ''Red Hat'' ''Red Hat Enterprise Linux with SQL Server Standard''
   \<and> PlatformDetails rhel_sql_image = Some ''Red Hat Enterprise Linux with SQL Server Standard''
   \<and> fst (determine_platform (image_env rhel_sql_image) ''ami-1'' start) = Inr (Some ''Windows'')"
  by code_simp

section \<open>\<open>delete_alarms\<close>\<close>

text \<open>
  Claim C7. \<open>delete_alarms\<close> with the resource name \<open>r\<close> asks the alarm store for the
  alarms with the name prefix \<open>AutoAlarm-<r>\<close> and then issues one delete call for
  exactly the alarm names of the answer, in order; with an answer that has no alarm
  (or no \<open>MetricAlarms\<close> key) the delete call is still issued, with the empty list. When
  the store accepts the delete call, the function returns \<open>True\<close>.
\<close>

theorem delete_alarms_by_prefix:
  assumes "cw_describe_alarms env (calls st) (''AutoAlarm-'' @ r) = Inr response"
    and "cw_delete_alarms env (calls st @ [Describe_alarms (''AutoAlarm-'' @ r)])
           (case response of None \<Rightarrow> [] | Some names \<Rightarrow> names) = None"
  shows "fst (delete_alarms env r st) = Some True
     \<and> calls (snd (delete_alarms env r st)) =
         calls st @ [Describe_alarms (''AutoAlarm-'' @ r),
                     Delete_alarms (case response of None \<Rightarrow> [] | Some names \<Rightarrow> names)]"
  using assms by (simp add: delete_alarms_def Let_def)

theorem delete_alarms_by_prefix_witness:
  "fst (delete_alarms sample_env ''i-3'' start) = Some True
   \<and> calls (snd (delete_alarms sample_env ''i-3'' start)) =
       [Describe_alarms ''AutoAlarm-i-3'', Delete_alarms []]
   \<and> fst (delete_alarms sample_env ''i-1'' start) = Some True
   \<and> calls (snd (delete_alarms sample_env ''i-1'' start)) =
       [Describe_alarms ''AutoAlarm-i-1'',
        Delete_alarms
          [''AutoAlarm-i-1-AWS/EC2-CPUUtilization-GreaterThanThreshold-80-5m'',
           ''AutoAlarm-i-1-CWAgent-mem_used_percent-GreaterThanThreshold-5m-Average'']]"
proof -
  have d1: "cw_describe_alarms sample_env (calls start) (''AutoAlarm-'' @ ''i-1'') =
             Inr (Some [''AutoAlarm-i-1-AWS/EC2-CPUUtilization-GreaterThanThreshold-80-5m'',
                        ''AutoAlarm-i-1-CWAgent-mem_used_percent-GreaterThanThreshold-5m-Average''])"
    by code_simp
  have a1: "cw_delete_alarms sample_env (calls start @ [Describe_alarms (''AutoAlarm-'' @ ''i-1'')])
             (case Some [''AutoAlarm-i-1-AWS/EC2-CPUUtilization-GreaterThanThreshold-80-5m'',
                        ''AutoAlarm-i-1-CWAgent-mem_used_percent-GreaterThanThreshold-5m-Average'']
              of None \<Rightarrow> [] | Some names \<Rightarrow> names) = None"
    by (simp add: sample_env_def)
  have d3: "cw_describe_alarms sample_env (calls start) (''AutoAlarm-'' @ ''i-3'') = Inr (Some [])"
    by code_simp
  have a3: "cw_delete_alarms sample_env (calls start @ [Describe_alarms (''AutoAlarm-'' @ ''i-3'')])
             (case Some [] of None \<Rightarrow> [] | Some names \<Rightarrow> names) = None"
    by (simp add: sample_env_def)
  show ?thesis
    using delete_alarms_by_prefix [OF d1 a1] delete_alarms_by_prefix [OF d3 a3]
    by (simp add: start_def)
qed

section \<open>An alarm that the store refuses\<close>

text \<open>
  Claim C8. When the alarm store answers the \<open>put_metric_alarm\<close> call for the alarm of
  a tag with an error, \<open>create_alarm\<close> logs \<open>Error creating alarm\<close> with that error and
  returns without an exception, so the loop over the tags of the resource goes on with
  the next tag from the state that call left.
\<close>

theorem store_error_not_fatal:
  assumes refused: "\<forall>a. cw_put_metric_alarm env (calls st) a = Some e"
    and thr: "float_builtin env (Value t) = Some thr"
    and key: "split_dash (Key t) = [prefix, ns, mn, co, pe, sta]"
  shows "fst (create_alarm env name mn' co' pe' (Value t) sta' ns' dims' sns' st) = Inr ()
     \<and> last (log (snd (create_alarm env name mn' co' pe' (Value t) sta' ns' dims' sns' st))) =
         (ERROR, Error_creating_alarm name e)
     \<and> fst (ec2_alarm env instance_id dims sns t st) = Inr ()
     \<and> for_each (ec2_alarm env instance_id dims sns) (t # rest) st =
         for_each (ec2_alarm env instance_id dims sns) rest
           (snd (ec2_alarm env instance_id dims sns t st))"
proof -
  let ?name = "''AutoAlarm-'' @ instance_id @ ''-'' @ ns @ ''-'' @ mn @ ''-'' @ co @ ''-''
               @ Value t @ ''-'' @ pe"
  have eq: "ec2_alarm env instance_id dims sns t st =
            create_alarm env ?name mn co pe (Value t) sta ns dims sns st"
    by (simp add: ec2_alarm_def fixed_properties_six [OF key])
  have r: "fst (ec2_alarm env instance_id dims sns t st) = Inr ()"
    unfolding eq using create_alarm_returns [OF thr] by blast
  have f: "for_each (ec2_alarm env instance_id dims sns) (t # rest) st =
         for_each (ec2_alarm env instance_id dims sns) rest
           (snd (ec2_alarm env instance_id dims sns t st))"
    using r by (cases "ec2_alarm env instance_id dims sns t st") simp
  show ?thesis
    using create_alarm_returns [OF thr] create_alarm_put_refused [OF refused thr] r f by blast
qed

theorem store_error_not_fatal_witness:
  "for_each (ec2_alarm refusing_env ''i-1'' [] None) [cpu_tag ''80'', status_tag ''1''] start =
   for_each (ec2_alarm refusing_env ''i-1'' [] None) [status_tag ''1'']
     (snd (ec2_alarm refusing_env ''i-1'' [] None (cpu_tag ''80'') start))
   \<and> fst (ec2_alarm refusing_env ''i-1'' [] None (cpu_tag ''80'') start) = Inr ()
   \<and> for_each (ec2_alarm refusing_env ''i-1'' [] None) [cpu_tag ''80'', status_tag ''1''] start =
     (Inr (),
      \<lparr>log =
         [(ERROR, Error_creating_alarm
                    ''AutoAlarm-i-1-AWS/EC2-CPUUtilization-GreaterThanThreshold-80-5m''
                    (ClientError ''LimitExceeded'')),
          (INFO, Created_alarm ''AutoAlarm-i-1-AWS/EC2-StatusCheckFailed-GreaterThanThreshold-1-5m'')],
       calls =
         [Put_metric_alarm
            \<lparr>AlarmName = ''AutoAlarm-i-1-AWS/EC2-CPUUtilization-GreaterThanThreshold-80-5m'',
             AlarmDescription = ''Alarm created by lambda function CloudWatchAutoAlarms'',
             MetricName = ''CPUUtilization'', Namespace = ''AWS/EC2'', Dimensions = [],
             Period = Seconds 300, EvaluationPeriods = 1, Threshold = 80,
             ComparisonOperator = ''GreaterThanThreshold'', Statistic = ''Average'',
             AlarmActions = None\<rparr>,
          Put_metric_alarm
            \<lparr>AlarmName = ''AutoAlarm-i-1-AWS/EC2-StatusCheckFailed-GreaterThanThreshold-1-5m'',
             AlarmDescription = ''Alarm created by lambda function CloudWatchAutoAlarms'',
             MetricName = ''StatusCheckFailed'', Namespace = ''AWS/EC2'', Dimensions = [],
             Period = Seconds 300, EvaluationPeriods = 1, Threshold = 1,
             ComparisonOperator = ''GreaterThanThreshold'', Statistic = ''Average'',
             AlarmActions = None\<rparr>]\<rparr>)"
proof -
  have h1: "\<forall>a. cw_put_metric_alarm refusing_env (calls start) a = Some (ClientError ''LimitExceeded'')"
    by (simp add: refusing_env_def start_def)
  have h2: "float_builtin refusing_env (Value (cpu_tag ''80'')) = Some 80"
    by code_simp
  have h3: "split_dash (Key (cpu_tag ''80'')) =
              [''AutoAlarm'', ''AWS/EC2'', ''CPUUtilization'', ''GreaterThanThreshold'', ''5m'', ''Average'']"
    by code_simp
  have v: "for_each (ec2_alarm refusing_env ''i-1'' [] None) [cpu_tag ''80'', status_tag ''1''] start =
     (Inr (),
      \<lparr>log =
         [(ERROR, Error_creating_alarm
                    ''AutoAlarm-i-1-AWS/EC2-CPUUtilization-GreaterThanThreshold-80-5m''
                    (ClientError ''LimitExceeded'')),
          (INFO, Created_alarm ''AutoAlarm-i-1-AWS/EC2-StatusCheckFailed-GreaterThanThreshold-1-5m'')],
       calls =
         [Put_metric_alarm
            \<lparr>AlarmName = ''AutoAlarm-i-1-AWS/EC2-CPUUtilization-GreaterThanThreshold-80-5m'',
             AlarmDescription = ''Alarm created by lambda function CloudWatchAutoAlarms'',
             MetricName = ''CPUUtilization'', Namespace = ''AWS/EC2'', Dimensions = [],
             Period = Seconds 300, EvaluationPeriods = 1, Threshold = 80,
             ComparisonOperator = ''GreaterThanThreshold'', Statistic = ''Average'',
             AlarmActions = None\<rparr>,
          Put_metric_alarm
            \<lparr>AlarmName = ''AutoAlarm-i-1-AWS/EC2-StatusCheckFailed-GreaterThanThreshold-1-5m'',
             AlarmDescription = ''Alarm created by lambda function CloudWatchAutoAlarms'',
             MetricName = ''StatusCheckFailed'', Namespace = ''AWS/EC2'', Dimensions = [],
             Period = Seconds 300, EvaluationPeriods = 1, Threshold = 1,
             ComparisonOperator = ''GreaterThanThreshold'', Statistic = ''Average'',
             AlarmActions = None\<rparr>]\<rparr>)"
    by code_simp
  show ?thesis
    using store_error_not_fatal [OF h1 h2 h3, where instance_id = "''i-1''" and dims = "[]"
        and sns = None and rest = "[status_tag ''1'']"] v
    by simp
qed

section \<open>The default alarms after an invocation\<close>

lemma collect_function_tags_result:
  assumes "set ks \<subseteq> fst ` set tags"
    and "map_of default_alarms ''AWS/Lambda'' = Some (Tag_list ts)"
  shows "collect_function_tags tags ks default_alarms =
           (Inr (),
            assign ''AWS/Lambda''
              (Tag_list (ts @ map (\<lambda>k. \<lparr>Key = k, Value = the (map_of tags k)\<rparr>)
                               (filter (\<lambda>k. startswith k ''AutoAlarm'') ks)))
              default_alarms)"
  using assms
proof (induction ks arbitrary: default_alarms ts)
  case Nil
  then show ?case by (simp add: assign_same)
next
  case (Cons k ks)
  show ?case
  proof (cases "startswith k ''AutoAlarm''")
    case False
    then show ?thesis using Cons by simp
  next
    case True
    from Cons.prems(1) obtain v where v: "map_of tags k = Some v"
      by (metis list.set_intros(1) subsetD map_of_eq_None_iff not_Some_eq)
    let ?d = "assign ''AWS/Lambda'' (Tag_list (ts @ [\<lparr>Key = k, Value = v\<rparr>])) default_alarms"
    have m: "map_of ?d ''AWS/Lambda'' = Some (Tag_list (ts @ [\<lparr>Key = k, Value = v\<rparr>]))"
      by (simp add: map_of_assign)
    have s: "set ks \<subseteq> fst ` set tags" using Cons.prems(1) by simp
    show ?thesis
      using True v Cons.prems(2) Cons.IH [OF s m]
      by (simp add: subscript_def append_tag_def assign_assign)
  qed
qed

lemma function_alarm_tags_keys:
  assumes "distinct (map fst tags)"
  shows "map (\<lambda>k. \<lparr>Key = k, Value = the (map_of tags k)\<rparr>)
           (filter (\<lambda>k. startswith k ''AutoAlarm'') (map fst tags)) =
         function_alarm_tags tags"
proof -
  have "map (\<lambda>k. \<lparr>Key = k, Value = the (map_of tags k)\<rparr>)
           (filter (\<lambda>k. startswith k ''AutoAlarm'') (map fst tags)) =
        map (\<lambda>p. \<lparr>Key = fst p, Value = the (map_of tags (fst p))\<rparr>)
           (filter (\<lambda>p. startswith (fst p) ''AutoAlarm'') tags)"
    by (simp add: filter_map comp_def)
  also have "\<dots> = map (\<lambda>p. \<lparr>Key = fst p, Value = snd p\<rparr>)
           (filter (\<lambda>p. startswith (fst p) ''AutoAlarm'') tags)"
    using assms by (intro map_cong) auto
  finally show ?thesis by (simp add: function_alarm_tags_def case_prod_unfold)
qed

lemma process_lambda_alarms_appends:
  assumes "distinct (map fst tags)"
    and "map_of tags activation_tag = Some v" and "v \<noteq> ''not_found''"
    and "map_of default_alarms ''AWS/Lambda'' = Some (Tag_list ts)"
  shows "fst (snd (process_lambda_alarms env function_name tags activation_tag default_alarms sns st)) =
           assign ''AWS/Lambda'' (Tag_list (ts @ function_alarm_tags tags)) default_alarms"
proof -
  have "collect_function_tags tags (map fst tags) default_alarms =
          (Inr (), assign ''AWS/Lambda'' (Tag_list (ts @ function_alarm_tags tags)) default_alarms)"
    using collect_function_tags_result [of "map fst tags" tags default_alarms ts] assms(4)
      function_alarm_tags_keys [OF assms(1)] by simp
  then show ?thesis
    using assms(2,3)
    by (simp add: process_lambda_alarms_def Let_def split: sum.splits prod.splits)
qed

lemma collect_instance_tags_result:
  assumes "\<forall>t \<in> set ts. startswith (Key t) ''AutoAlarm'' \<longrightarrow>
             (\<exists>ns. index (split_dash (Key t)) 1 = Inr ns \<and>
                   (startswith ns ''AWS/EC2'' \<longrightarrow> ns = ''AWS/EC2''))"
    and "\<not> startswith cw_namespace ''AWS/EC2''"
    and "map_of default_alarms ''AWS/EC2'' = Some (Tag_list es)"
    and "map_of default_alarms cw_namespace = Some (By_platform ps)"
    and "map_of ps platform = Some l"
  shows "collect_instance_tags cw_namespace platform ts default_alarms =
           (Inr (),
            assign cw_namespace
              (By_platform (assign platform (l @ instance_alarm_tags cw_namespace ts) ps))
              (assign ''AWS/EC2'' (Tag_list (es @ instance_alarm_tags ''AWS/EC2'' ts))
                 default_alarms))"
  using assms
proof (induction ts arbitrary: default_alarms es ps l)
  case Nil
  then show ?case by (simp add: instance_alarm_tags_def assign_same map_of_assign)
next
  case (Cons t ts)
  have ne: "cw_namespace \<noteq> ''AWS/EC2''"
    using Cons.prems(2) by (auto simp: startswith_def)
  have rest: "\<forall>t \<in> set ts. startswith (Key t) ''AutoAlarm'' \<longrightarrow>
             (\<exists>ns. index (split_dash (Key t)) 1 = Inr ns \<and>
                   (startswith ns ''AWS/EC2'' \<longrightarrow> ns = ''AWS/EC2''))"
    using Cons.prems(1) by simp
  show ?case
  proof (cases "startswith (Key t) ''AutoAlarm''")
    case False
    then show ?thesis
      using Cons.IH [OF rest Cons.prems(2-5)] by (simp add: instance_alarm_tags_def)
  next
    case True
    then obtain ns where ns: "index (split_dash (Key t)) 1 = Inr ns"
      "startswith ns ''AWS/EC2'' \<longrightarrow> ns = ''AWS/EC2''"
      using Cons.prems(1) by auto
    consider (ec2) "ns = ''AWS/EC2''" | (cw) "ns = cw_namespace" "\<not> startswith ns ''AWS/EC2''"
      | (other) "\<not> startswith ns ''AWS/EC2''" "ns \<noteq> cw_namespace"
      using ns(2) by blast
    then show ?thesis
    proof cases
      case ec2
      let ?d = "assign ''AWS/EC2'' (Tag_list (es @ [t])) default_alarms"
      have a: "append_tag ns t default_alarms = Inr ?d"
        using ec2 Cons.prems(3) by (simp add: append_tag_def subscript_def)
      have m1: "map_of ?d ''AWS/EC2'' = Some (Tag_list (es @ [t]))" by (simp add: map_of_assign)
      have m2: "map_of ?d cw_namespace = Some (By_platform ps)"
        using ne Cons.prems(4) by (simp add: map_of_assign)
      have sw: "startswith ns ''AWS/EC2''" using ec2 by (simp add: startswith_def)
      show ?thesis
        using True ns(1) sw a ec2 ne Cons.IH [OF rest Cons.prems(2) m1 m2 Cons.prems(5)]
        by (simp add: instance_alarm_tags_def assign_assign)
    next
      case cw
      let ?ps = "assign platform (l @ [t]) ps"
      let ?d = "assign cw_namespace (By_platform ?ps) default_alarms"
      have a: "append_platform_tag ns platform t default_alarms = Inr ?d"
        using cw Cons.prems(4,5) by (simp add: append_platform_tag_def subscript_def)
      have m1: "map_of ?d ''AWS/EC2'' = Some (Tag_list es)"
        using ne Cons.prems(3) by (simp add: map_of_assign)
      have m2: "map_of ?d cw_namespace = Some (By_platform ?ps)" by (simp add: map_of_assign)
      have m3: "map_of ?ps platform = Some (l @ [t])" by (simp add: map_of_assign)
      have c: "assign ''AWS/EC2'' v ?d =
               assign cw_namespace (By_platform ?ps) (assign ''AWS/EC2'' v default_alarms)" for v
        using ne Cons.prems(3,4) assign_commute [of "''AWS/EC2''" cw_namespace default_alarms]
        by simp
      show ?thesis
        using True ns(1) cw a ne Cons.IH [OF rest Cons.prems(2) m1 m2 m3]
        by (simp add: instance_alarm_tags_def assign_assign c)
    next
      case other
      have "ns \<noteq> ''AWS/EC2''" using other(1) by (auto simp: startswith_def)
      then show ?thesis
        using other True ns(1) ne Cons.IH [OF rest Cons.prems(2-5)]
        by (simp add: instance_alarm_tags_def)
    qed
  qed
qed

lemma process_alarm_tags_default_alarms:
  "fst (snd (process_alarm_tags env instance_id info default_alarms mdm sns cw_namespace st)) =
     (case determine_platform env (ImageId info) (logger INFO (ImageId_is (ImageId info)) st) of
        (Inl e, st1) \<Rightarrow> default_alarms
      | (Inr platform, st1) \<Rightarrow>
          snd (collect_instance_tags cw_namespace platform (Tags info) default_alarms))"
  by (simp add: process_alarm_tags_def Let_def split: sum.splits prod.splits)


lemma assign_unchanged_iff:
  "map_of d k = Some v \<Longrightarrow> assign k v' d = d \<longleftrightarrow> v' = v"
  by (metis assign_same map_of_assign option.inject)

lemma process_lambda_alarms_not_found:
  "map_of tags activation_tag = None \<or> map_of tags activation_tag = Some ''not_found'' \<Longrightarrow>
   fst (snd (process_lambda_alarms env function_name tags activation_tag default_alarms sns st)) =
     default_alarms"
  by (auto simp: process_lambda_alarms_def)

lemma process_alarm_tags_lookup_fails:
  "fst (determine_platform env (ImageId info) (logger INFO (ImageId_is (ImageId info)) st)) = Inl e \<Longrightarrow>
   fst (snd (process_alarm_tags env instance_id info default_alarms mdm sns cw_namespace st)) =
     default_alarms"
  by (cases "determine_platform env (ImageId info) (logger INFO (ImageId_is (ImageId info)) st)")
     (simp add: process_alarm_tags_default_alarms)

lemma process_alarm_tags_appends:
  assumes "fst (determine_platform env (ImageId info) (logger INFO (ImageId_is (ImageId info)) st)) =
             Inr platform"
    and "\<forall>t \<in> set (Tags info). startswith (Key t) ''AutoAlarm'' \<longrightarrow>
           (\<exists>ns. index (split_dash (Key t)) 1 = Inr ns \<and>
                 (startswith ns ''AWS/EC2'' \<longrightarrow> ns = ''AWS/EC2''))"
    and "\<not> startswith cw_namespace ''AWS/EC2''"
    and "map_of default_alarms ''AWS/EC2'' = Some (Tag_list es)"
    and "map_of default_alarms cw_namespace = Some (By_platform ps)"
    and "map_of ps platform = Some l"
  shows "fst (snd (process_alarm_tags env instance_id info default_alarms mdm sns cw_namespace st)) =
           assign cw_namespace
             (By_platform (assign platform (l @ instance_alarm_tags cw_namespace (Tags info)) ps))
             (assign ''AWS/EC2'' (Tag_list (es @ instance_alarm_tags ''AWS/EC2'' (Tags info)))
                default_alarms)"
proof -
  obtain st1 where
    "determine_platform env (ImageId info) (logger INFO (ImageId_is (ImageId info)) st) =
       (Inr platform, st1)"
    using assms(1) by (metis prod.collapse)
  then show ?thesis
    using collect_instance_tags_result [OF assms(2-6)]
    by (simp add: process_alarm_tags_default_alarms)
qed

lemma grown_lists_unchanged_iff:
  assumes "\<not> startswith cw_namespace ''AWS/EC2''"
    and "map_of default_alarms ''AWS/EC2'' = Some (Tag_list es)"
    and "map_of default_alarms cw_namespace = Some (By_platform ps)"
    and "map_of ps platform = Some l"
  shows "assign cw_namespace (By_platform (assign platform (l @ cs) ps))
           (assign ''AWS/EC2'' (Tag_list (es @ ecs)) default_alarms) = default_alarms
         \<longleftrightarrow> ecs = [] \<and> cs = []"
proof
  let ?d = "assign cw_namespace (By_platform (assign platform (l @ cs) ps))
              (assign ''AWS/EC2'' (Tag_list (es @ ecs)) default_alarms)"
  have ne: "cw_namespace \<noteq> ''AWS/EC2''"
    using assms(1) by (auto simp: startswith_def)
  assume eq: "?d = default_alarms"
  have "map_of ?d ''AWS/EC2'' = Some (Tag_list (es @ ecs))"
    using ne by (simp add: map_of_assign)
  then have e: "ecs = []" using eq assms(2) by simp
  have "map_of ?d cw_namespace = Some (By_platform (assign platform (l @ cs) ps))"
    by (simp add: map_of_assign)
  then have "assign platform (l @ cs) ps = ps" using eq assms(3) by simp
  then have "map_of ps platform = Some (l @ cs)"
    by (metis map_of_assign)
  then have "cs = []" using assms(4) by simp
  then show "ecs = [] \<and> cs = []" using e by simp
next
  assume "ecs = [] \<and> cs = []"
  then show "assign cw_namespace (By_platform (assign platform (l @ cs) ps))
           (assign ''AWS/EC2'' (Tag_list (es @ ecs)) default_alarms) = default_alarms"
    using assms(2-4) by (simp add: assign_same)
qed

text \<open>
  Claim C9, as the code has it. Neither function leaves \<open>default_alarms\<close> alone: both
  append to the lists of the mapping they are given, and the caller holds the grown
  lists afterwards.
  \<^item> \<open>process_lambda_alarms\<close>: when the tags do not have the activation tag, or have it
    with the value \<open>not_found\<close>, the mapping is unchanged. When the tags (a dict, so
    with distinct keys) have the activation tag with another value and the mapping has
    a list under \<open>AWS/Lambda\<close>, the mapping afterwards is the one before with every
    alarm tag of the function appended, in order, to that list; it is unchanged exactly
    when the function has no alarm tag.
  \<^item> \<open>process_alarm_tags\<close>: when \<open>determine_platform\<close> raises, the mapping is unchanged.
    When it returns a platform, every instance tag key that starts with \<open>AutoAlarm\<close>
    has a second piece and that piece is \<open>AWS/EC2\<close> if it starts with \<open>AWS/EC2\<close>,
    \<open>cw_namespace\<close> does not start with \<open>AWS/EC2\<close>, and the mapping has a list under
    \<open>AWS/EC2\<close> and, under \<open>cw_namespace\<close>, a list for the platform, the mapping
    afterwards is the one before with the alarm tags of the instance of namespace
    \<open>AWS/EC2\<close> appended to the first list and those of namespace \<open>cw_namespace\<close>
    appended to the second; it is unchanged exactly when the instance has no alarm tag
    of either namespace.
\<close>

theorem default_alarms_grow:
  "(map_of tags activation_tag = None \<or> map_of tags activation_tag = Some ''not_found'' \<longrightarrow>
      fst (snd (process_lambda_alarms env function_name tags activation_tag default_alarms
                  sns st)) = default_alarms)
   \<and> (distinct (map fst tags) \<and> map_of tags activation_tag = Some v \<and> v \<noteq> ''not_found'' \<and>
      map_of default_alarms ''AWS/Lambda'' = Some (Tag_list ts) \<longrightarrow>
        fst (snd (process_lambda_alarms env function_name tags activation_tag default_alarms
                    sns st)) =
          assign ''AWS/Lambda'' (Tag_list (ts @ function_alarm_tags tags)) default_alarms
        \<and> (fst (snd (process_lambda_alarms env function_name tags activation_tag default_alarms
                       sns st)) = default_alarms
             \<longleftrightarrow> function_alarm_tags tags = []))
   \<and> (fst (determine_platform env (ImageId info) (logger INFO (ImageId_is (ImageId info)) st')) =
        Inl e \<longrightarrow>
        fst (snd (process_alarm_tags env instance_id info defaults metric_dimensions_map sns'
                    cw_namespace st')) = defaults)
   \<and> (fst (determine_platform env (ImageId info) (logger INFO (ImageId_is (ImageId info)) st')) =
        Inr platform \<and>
      (\<forall>t \<in> set (Tags info). startswith (Key t) ''AutoAlarm'' \<longrightarrow>
         (\<exists>ns. index (split_dash (Key t)) 1 = Inr ns \<and>
               (startswith ns ''AWS/EC2'' \<longrightarrow> ns = ''AWS/EC2''))) \<and>
      \<not> startswith cw_namespace ''AWS/EC2'' \<and>
      map_of defaults ''AWS/EC2'' = Some (Tag_list es) \<and>
      map_of defaults cw_namespace = Some (By_platform ps) \<and>
      map_of ps platform = Some l \<longrightarrow>
        fst (snd (process_alarm_tags env instance_id info defaults metric_dimensions_map sns'
                    cw_namespace st')) =
          assign cw_namespace
            (By_platform (assign platform (l @ instance_alarm_tags cw_namespace (Tags info)) ps))
            (assign ''AWS/EC2'' (Tag_list (es @ instance_alarm_tags ''AWS/EC2'' (Tags info)))
               defaults)
        \<and> (fst (snd (process_alarm_tags env instance_id info defaults metric_dimensions_map sns'
                       cw_namespace st')) = defaults
             \<longleftrightarrow> instance_alarm_tags ''AWS/EC2'' (Tags info) = [] \<and>
                 instance_alarm_tags cw_namespace (Tags info) = []))"
proof (intro conjI impI)
  assume "map_of tags activation_tag = None \<or> map_of tags activation_tag = Some ''not_found''"
  then show "fst (snd (process_lambda_alarms env function_name tags activation_tag default_alarms
                  sns st)) = default_alarms"
    by (rule process_lambda_alarms_not_found)
next
  assume a: "distinct (map fst tags) \<and> map_of tags activation_tag = Some v \<and> v \<noteq> ''not_found'' \<and>
      map_of default_alarms ''AWS/Lambda'' = Some (Tag_list ts)"
  then show r: "fst (snd (process_lambda_alarms env function_name tags activation_tag default_alarms
                    sns st)) =
          assign ''AWS/Lambda'' (Tag_list (ts @ function_alarm_tags tags)) default_alarms"
    using process_lambda_alarms_appends by blast
  show "fst (snd (process_lambda_alarms env function_name tags activation_tag default_alarms
                       sns st)) = default_alarms
             \<longleftrightarrow> function_alarm_tags tags = []"
    unfolding r using a assign_unchanged_iff [of default_alarms "''AWS/Lambda''" "Tag_list ts"]
    by simp
next
  assume "fst (determine_platform env (ImageId info) (logger INFO (ImageId_is (ImageId info)) st')) =
        Inl e"
  then show "fst (snd (process_alarm_tags env instance_id info defaults metric_dimensions_map sns'
                    cw_namespace st')) = defaults"
    by (rule process_alarm_tags_lookup_fails)
next
  assume a: "fst (determine_platform env (ImageId info) (logger INFO (ImageId_is (ImageId info)) st')) =
        Inr platform \<and>
      (\<forall>t \<in> set (Tags info). startswith (Key t) ''AutoAlarm'' \<longrightarrow>
         (\<exists>ns. index (split_dash (Key t)) 1 = Inr ns \<and>
               (startswith ns ''AWS/EC2'' \<longrightarrow> ns = ''AWS/EC2''))) \<and>
      \<not> startswith cw_namespace ''AWS/EC2'' \<and>
      map_of defaults ''AWS/EC2'' = Some (Tag_list es) \<and>
      map_of defaults cw_namespace = Some (By_platform ps) \<and>
      map_of ps platform = Some l"
  then show r: "fst (snd (process_alarm_tags env instance_id info defaults metric_dimensions_map sns'
                    cw_namespace st')) =
          assign cw_namespace
            (By_platform (assign platform (l @ instance_alarm_tags cw_namespace (Tags info)) ps))
            (assign ''AWS/EC2'' (Tag_list (es @ instance_alarm_tags ''AWS/EC2'' (Tags info)))
               defaults)"
    using process_alarm_tags_appends by blast
  show "fst (snd (process_alarm_tags env instance_id info defaults metric_dimensions_map sns'
                       cw_namespace st')) = defaults
             \<longleftrightarrow> instance_alarm_tags ''AWS/EC2'' (Tags info) = [] \<and>
                 instance_alarm_tags cw_namespace (Tags info) = []"
    unfolding r using a grown_lists_unchanged_iff by blast
qed

theorem default_alarms_grow_witness:
  "fst (snd (process_lambda_alarms sample_env ''fn'' function_tags ''Create_Auto_Alarms''
               [(''AWS/Lambda'', Tag_list [])] None start)) =
     [(''AWS/Lambda'', Tag_list [errors_tag ''1''])]
   \<and> fst (snd (process_lambda_alarms sample_env ''fn''
               [(''Create_Auto_Alarms'', ''not_found''),
                (''AutoAlarm-AWS/Lambda-Errors-GreaterThanThreshold-5m-Average'', ''1'')]
               ''Create_Auto_Alarms'' [(''AWS/Lambda'', Tag_list [])] None start)) =
     [(''AWS/Lambda'', Tag_list [])]
   \<and> fst (snd (process_alarm_tags sample_env ''i-1'' tagged_instance (ec2_defaults [])
                 [(''AWS/EC2'', [''InstanceId''])] None ''CWAgent'' start)) =
     [(''AWS/EC2'', Tag_list [cpu_tag ''90'']),
      (''CWAgent'', By_platform [(Some ''Amazon Linux'', [memory_tag ''75''])])]
   \<and> fst (snd (process_alarm_tags no_image_env ''i-1'' tagged_instance (ec2_defaults [])
                 [(''AWS/EC2'', [''InstanceId''])] None ''CWAgent'' start)) =
     ec2_defaults []"
proof -
  have h1: "distinct (map fst function_tags) \<and>
            map_of function_tags ''Create_Auto_Alarms'' = Some ''true'' \<and> ''true'' \<noteq> ''not_found'' \<and>
            map_of [(''AWS/Lambda'', Tag_list [])] ''AWS/Lambda'' = Some (Tag_list [])"
    by (simp add: function_tags_def)
  have p: "fst (determine_platform sample_env (ImageId tagged_instance)
                  (logger INFO (ImageId_is (ImageId tagged_instance)) start)) =
           Inr (Some ''Amazon Linux'')"
    by code_simp
  have k: "\<forall>t \<in> set (Tags tagged_instance). startswith (Key t) ''AutoAlarm'' \<longrightarrow>
         (\<exists>ns. index (split_dash (Key t)) 1 = Inr ns \<and>
               (startswith ns ''AWS/EC2'' \<longrightarrow> ns = ''AWS/EC2''))"
    by (simp add: tagged_instance_def instance_with_def cpu_tag_def memory_tag_def split_dash_def
          index_def startswith_def)
  have h2: "\<not> startswith ''CWAgent'' ''AWS/EC2'' \<and>
      map_of (ec2_defaults []) ''AWS/EC2'' = Some (Tag_list []) \<and>
      map_of (ec2_defaults []) ''CWAgent'' = Some (By_platform [(Some ''Amazon Linux'', [])]) \<and>
      map_of [(Some ''Amazon Linux'', [])] (Some ''Amazon Linux'') = Some []"
    by (simp add: ec2_defaults_def startswith_def)
  have f: "function_alarm_tags function_tags = [errors_tag ''1'']"
    by code_simp
  have i1: "instance_alarm_tags ''AWS/EC2'' (Tags tagged_instance) = [cpu_tag ''90'']"
    by code_simp
  have i2: "instance_alarm_tags ''CWAgent'' (Tags tagged_instance) = [memory_tag ''75'']"
    by code_simp
  have n: "map_of [(''Create_Auto_Alarms'', ''not_found''),
                   (''AutoAlarm-AWS/Lambda-Errors-GreaterThanThreshold-5m-Average'', ''1'')]
             ''Create_Auto_Alarms'' = Some ''not_found''"
    by simp
  have q: "fst (determine_platform no_image_env (ImageId tagged_instance)
                  (logger INFO (ImageId_is (ImageId tagged_instance)) start)) =
           Inl (ClientError ''InvalidAMIID.NotFound'')"
    by code_simp
  have a: "fst (snd (process_lambda_alarms sample_env ''fn'' function_tags ''Create_Auto_Alarms''
               [(''AWS/Lambda'', Tag_list [])] None start)) =
             [(''AWS/Lambda'', Tag_list [errors_tag ''1''])]
        \<and> fst (snd (process_alarm_tags sample_env ''i-1'' tagged_instance (ec2_defaults [])
                 [(''AWS/EC2'', [''InstanceId''])] None ''CWAgent'' start)) =
             [(''AWS/EC2'', Tag_list [cpu_tag ''90'']),
              (''CWAgent'', By_platform [(Some ''Amazon Linux'', [memory_tag ''75''])])]"
    using default_alarms_grow [where tags = function_tags
        and activation_tag = "''Create_Auto_Alarms''" and v = "''true''"
        and default_alarms = "[(''AWS/Lambda'', Tag_list [])]" and ts = "[]" and env = sample_env
        and function_name = "''fn''" and sns = None and st = start
        and info = tagged_instance and st' = start and platform = "Some ''Amazon Linux''"
        and cw_namespace = "''CWAgent''" and defaults = "ec2_defaults []" and es = "[]"
        and ps = "[(Some ''Amazon Linux'', [])]" and l = "[]" and instance_id = "''i-1''"
        and metric_dimensions_map = "[(''AWS/EC2'', [''InstanceId''])]" and sns' = None]
      h1 p k h2
    by (simp add: f i1 i2 ec2_defaults_def)
  have b1: "fst (snd (process_lambda_alarms sample_env ''fn''
               [(''Create_Auto_Alarms'', ''not_found''),
                (''AutoAlarm-AWS/Lambda-Errors-GreaterThanThreshold-5m-Average'', ''1'')]
               ''Create_Auto_Alarms'' [(''AWS/Lambda'', Tag_list [])] None start)) =
             [(''AWS/Lambda'', Tag_list [])]"
    using default_alarms_grow [where tags = "[(''Create_Auto_Alarms'', ''not_found''),
                (''AutoAlarm-AWS/Lambda-Errors-GreaterThanThreshold-5m-Average'', ''1'')]"
        and activation_tag = "''Create_Auto_Alarms''"
        and default_alarms = "[(''AWS/Lambda'', Tag_list [])]" and env = sample_env
        and function_name = "''fn''" and sns = None and st = start]
      n
    by blast
  have b2: "fst (snd (process_alarm_tags no_image_env ''i-1'' tagged_instance (ec2_defaults [])
                 [(''AWS/EC2'', [''InstanceId''])] None ''CWAgent'' start)) =
             ec2_defaults []"
    using default_alarms_grow [where env = no_image_env
        and info = tagged_instance and st' = start
        and e = "ClientError ''InvalidAMIID.NotFound''"
        and cw_namespace = "''CWAgent''" and defaults = "ec2_defaults []"
        and instance_id = "''i-1''"
        and metric_dimensions_map = "[(''AWS/EC2'', [''InstanceId''])]" and sns' = None]
      q
    by blast
  show ?thesis using a b1 b2 by blast
qed

theorem default_alarms_grow_counterexample:
  "fst (snd (process_lambda_alarms sample_env ''fn'' function_tags ''Create_Auto_Alarms''
               [(''AWS/Lambda'', Tag_list [])] None start)) =
     [(''AWS/Lambda'', Tag_list [errors_tag ''1''])]
   \<and> [(''AWS/Lambda'', Tag_list [errors_tag ''1''])] \<noteq> [(''AWS/Lambda'', Tag_list [])]
   \<and> put_alarm_names (calls (snd (snd (process_lambda_alarms sample_env ''other''
        [(''Create_Auto_Alarms'', ''true'')] ''Create_Auto_Alarms''
        [(''AWS/Lambda'', Tag_list [])] None start)))) = []
   \<and> put_alarm_names (calls (snd (snd (process_lambda_alarms sample_env ''other''
        [(''Create_Auto_Alarms'', ''true'')] ''Create_Auto_Alarms''
        (fst (snd (process_lambda_alarms sample_env ''fn'' function_tags ''Create_Auto_Alarms''
                     [(''AWS/Lambda'', Tag_list [])] None start)))
        None start)))) =
      [''AutoAlarm-other-AWS/Lambda-Errors-GreaterThanThreshold-5m-Average'']"
  by code_simp

section \<open>The activation tag of a function\<close>

text \<open>
  Claim C10. When the tags of the function do not have the activation tag, or have it
  with the value \<open>not_found\<close>, \<open>process_lambda_alarms\<close> returns \<open>True\<close> at once: it logs
  one debug message, leaves \<open>default_alarms\<close> as it is and issues no call, so it creates
  no alarm.
\<close>

theorem activation_tag_not_found:
  assumes "map_of tags activation_tag = None \<or> map_of tags activation_tag = Some ''not_found''"
  shows "process_lambda_alarms env function_name tags activation_tag default_alarms sns st =
           (Inr (Some True), default_alarms,
            logger DEBUG (Activation_tag_not_found function_name) st)
         \<and> calls (logger DEBUG (Activation_tag_not_found function_name) st) = calls st"
  using assms by (auto simp: process_lambda_alarms_def)

theorem activation_tag_not_found_witness:
  "process_lambda_alarms sample_env ''fn''
     [(''Create_Auto_Alarms'', ''not_found''),
      (''AutoAlarm-AWS/Lambda-Errors-GreaterThanThreshold-5m-Average'', ''1'')]
     ''Create_Auto_Alarms'' [(''AWS/Lambda'', Tag_list [])] None start =
   (Inr (Some True), [(''AWS/Lambda'', Tag_list [])],
    \<lparr>log = [(DEBUG, Activation_tag_not_found ''fn'')], calls = []\<rparr>)
   \<and> process_lambda_alarms sample_env ''fn''
     [(''AutoAlarm-AWS/Lambda-Errors-GreaterThanThreshold-5m-Average'', ''1'')]
     ''Create_Auto_Alarms'' [(''AWS/Lambda'', Tag_list [])] None start =
   (Inr (Some True), [(''AWS/Lambda'', Tag_list [])],
    \<lparr>log = [(DEBUG, Activation_tag_not_found ''fn'')], calls = []\<rparr>)"
  using activation_tag_not_found [of
      "[(''Create_Auto_Alarms'', ''not_found''),
        (''AutoAlarm-AWS/Lambda-Errors-GreaterThanThreshold-5m-Average'', ''1'')]"
      "''Create_Auto_Alarms''" sample_env "''fn''" "[(''AWS/Lambda'', Tag_list [])]" None start]
    activation_tag_not_found [of
      "[(''AutoAlarm-AWS/Lambda-Errors-GreaterThanThreshold-5m-Average'', ''1'')]"
      "''Create_Auto_Alarms''" sample_env "''fn''" "[(''AWS/Lambda'', Tag_list [])]" None start]
  by (simp add: logger_def start_def)

end
